theory Spec2Isabelle
  imports Complex_Main
begin

section \<open>Gesture controller (src/components/GestureController.tsx)\<close>

text \<open>
  JavaScript numbers are modelled as reals; \<open>Date.now()\<close> is an integer number of
  milliseconds. The enum \<open>AppState\<close> is imported by the source from \<open>../types\<close>; its
  three members are the ones the source names.
\<close>

datatype AppState = SCATTERED | TREE_SHAPE | TEXT_SHAPE

text \<open>A landmark is an object with number fields \<open>x\<close>, \<open>y\<close>, \<open>z\<close>.\<close>

datatype Landmark = Landmark (lx: real) (ly: real) (lz: real)

text \<open>Reading a property of \<open>undefined\<close> raises a \<open>TypeError\<close>.\<close>

datatype error = TypeError

text \<open>
  The mutable state \<open>predictWebcam\<close> works on: the application state behind
  \<open>setAppState\<close> and the refs \<open>openHandStartTime\<close> (0 means that no open hand is
  being timed) and \<open>lastVideoTime\<close>.
\<close>

record GestureState =
  appState :: AppState
  openHandStartTime :: int
  lastVideoTime :: real

text \<open>\<open>landmarks[i]\<close>: an index outside the array reads \<open>undefined\<close> (\<open>None\<close>).\<close>

definition elemAt :: "'a list \<Rightarrow> nat \<Rightarrow> 'a option" where
  "elemAt xs i = (if i < length xs then Some (xs ! i) else None)"

text \<open>
  Lines 116-120, the body of \<open>tips.forEach\<close>: \<open>tip.x\<close> and \<open>wrist.x\<close> raise when
  \<open>tip\<close> or \<open>wrist\<close> is \<open>undefined\<close>.
\<close>

definition tipDist :: "Landmark option \<Rightarrow> Landmark option \<Rightarrow> error + real" where
  "tipDist tip wrist =
     (case tip of
        None \<Rightarrow> Inl TypeError
      | Some t \<Rightarrow>
          (case wrist of
             None \<Rightarrow> Inl TypeError
           | Some w \<Rightarrow> Inr (sqrt ((lx t - lx w)\<^sup>2 + (ly t - ly w)\<^sup>2 + (lz t - lz w)\<^sup>2))))"

text \<open>Lines 114-122: \<open>avgDist\<close> accumulates the distances, tip after tip.\<close>

fun sumDists :: "Landmark option \<Rightarrow> Landmark option list \<Rightarrow> real \<Rightarrow> error + real" where
  "sumDists wrist [] acc = Inr acc"
| "sumDists wrist (tip # tips) acc =
     (case tipDist tip wrist of
        Inl e \<Rightarrow> Inl e
      | Inr dst \<Rightarrow> sumDists wrist tips (acc + dst))"

text \<open>Lines 111-123: the openness metric of one hand.\<close>

definition avgDist :: "Landmark list \<Rightarrow> error + real" where
  "avgDist landmarks =
     (let wrist = elemAt landmarks 0;
          tips = map (elemAt landmarks) [8, 12, 16, 20]
      in case sumDists wrist tips 0 of
           Inl e \<Rightarrow> Inl e
         | Inr sm \<Rightarrow> Inr (sm / real (length tips)))"

definition OPEN_THRESHOLD :: real where
  "OPEN_THRESHOLD = 35 / 100"

definition CLOSE_THRESHOLD :: real where
  "CLOSE_THRESHOLD = 25 / 100"

text \<open>
  Lines 108-155, what \<open>predictWebcam\<close> does with one detection result:
  \<open>result\<close> is \<open>result.landmarks\<close> (one landmark list per detected hand), \<open>now\<close> is what
  \<open>Date.now()\<close> returns. The outcome is \<open>Inr ()\<close> when the block completes and
  \<open>Inl e\<close> when it raises \<open>e\<close>, paired with the state left behind.
\<close>

definition handleResult :: "Landmark list list \<Rightarrow> int \<Rightarrow> GestureState \<Rightarrow> (error + unit) \<times> GestureState" where
  "handleResult result now s =
     (case result of
        [] \<Rightarrow> (Inr (), s\<lparr>openHandStartTime := 0\<rparr>)
      | landmarks # _ \<Rightarrow>
          (case avgDist landmarks of
             Inl e \<Rightarrow> (Inl e, s)
           | Inr d \<Rightarrow>
               if d > OPEN_THRESHOLD then
                 (if openHandStartTime s = 0 then
                    (Inr (), s\<lparr>openHandStartTime := now, appState := SCATTERED\<rparr>)
                  else if now - openHandStartTime s > 5000 then
                    (Inr (), s\<lparr>appState := TEXT_SHAPE\<rparr>)
                  else
                    (Inr (), s\<lparr>appState :=
                       (if appState s = TEXT_SHAPE then TEXT_SHAPE else SCATTERED)\<rparr>))
               else if d < CLOSE_THRESHOLD then
                 (Inr (), s\<lparr>openHandStartTime := 0, appState := TREE_SHAPE\<rparr>)
               else (Inr (), s)))"

text \<open>
  One call of \<open>predictWebcam\<close> (lines 96-160). \<open>ready\<close> is the test of line 100,
  \<open>currentTime\<close> is \<open>video.currentTime\<close>. The call schedules the next one (line 159)
  unless it raised.
\<close>

record Frame =
  ready :: bool
  currentTime :: real
  detected :: "Landmark list list"
  dateNow :: int

definition predictWebcam :: "Frame \<Rightarrow> GestureState \<Rightarrow> (error + unit) \<times> GestureState" where
  "predictWebcam f s =
     (if ready f then
        (if currentTime f \<noteq> lastVideoTime s then
           handleResult (detected f) (dateNow f) (s\<lparr>lastVideoTime := currentTime f\<rparr>)
         else (Inr (), s))
      else (Inr (), s))"

text \<open>
  The animation-frame loop: each call of \<open>predictWebcam\<close> that returns runs the next
  one; a call that raises ends the loop.
\<close>

fun run :: "Frame list \<Rightarrow> GestureState \<Rightarrow> (error + unit) \<times> GestureState" where
  "run [] s = (Inr (), s)"
| "run (f # fs) s =
     (case predictWebcam f s of
        (Inl e, s') \<Rightarrow> (Inl e, s')
      | (Inr _, s') \<Rightarrow> run fs s')"

text \<open>
  The signal of a detection result, as the branches of lines 129, 147 and 152 name it:
  open hand, closed fist, or neither.
\<close>

datatype Signal = OPEN | CLOSED | UNKNOWN

definition classify :: "real \<Rightarrow> Signal" where
  "classify d =
     (if d > OPEN_THRESHOLD then OPEN
      else if d < CLOSE_THRESHOLD then CLOSED
      else UNKNOWN)"

definition signal :: "Landmark list list \<Rightarrow> error + Signal" where
  "signal result =
     (case result of
        [] \<Rightarrow> Inr UNKNOWN
      | landmarks # _ \<Rightarrow>
          (case avgDist landmarks of Inl e \<Rightarrow> Inl e | Inr d \<Rightarrow> Inr (classify d)))"

text \<open>
  The openness metric in the words of the specification, for comparison with \<open>avgDist\<close>:
  the mean Euclidean distance from the fingertips (landmarks 8, 12, 16 and 20) to the
  wrist (landmark 0).
\<close>

definition euclidean :: "Landmark \<Rightarrow> Landmark \<Rightarrow> real" where
  "euclidean a b = sqrt ((lx a - lx b)\<^sup>2 + (ly a - ly b)\<^sup>2 + (lz a - lz b)\<^sup>2)"

definition opennessMetric :: "Landmark list \<Rightarrow> real" where
  "opennessMetric landmarks =
     (euclidean (landmarks ! 8) (landmarks ! 0) + euclidean (landmarks ! 12) (landmarks ! 0) +
      euclidean (landmarks ! 16) (landmarks ! 0) + euclidean (landmarks ! 20) (landmarks ! 0)) / 4"

section \<open>Particle engine (src/unnamed/part_000, lines 1-242)\<close>

text \<open>
  A \<open>THREE.Vector3\<close>, with the three methods of the library that the source calls:
  \<open>lerp\<close> moves \<open>this\<close> by \<open>(v - this) * alpha\<close> in every coordinate, without clamping
  \<open>alpha\<close>; \<open>distanceTo\<close> is the Euclidean distance. \<open>clone\<close> and \<open>copy\<close> give a vector
  with the same coordinates; vectors are values here, which is sound because the source
  gives every particle field its own object (lines 77-80 clone \<open>scatterPos\<close>).
\<close>

datatype Vector3 = Vector3 (vx: real) (vy: real) (vz: real)

definition lerp :: "Vector3 \<Rightarrow> Vector3 \<Rightarrow> real \<Rightarrow> Vector3" where
  "lerp this v alpha =
     Vector3 (vx this + (vx v - vx this) * alpha)
             (vy this + (vy v - vy this) * alpha)
             (vz this + (vz v - vz this) * alpha)"

definition distanceTo :: "Vector3 \<Rightarrow> Vector3 \<Rightarrow> real" where
  "distanceTo this v =
     (let dx = vx this - vx v; dy = vy this - vy v; dz = vz this - vz v
      in sqrt (dx * dx + dy * dy + dz * dz))"

text \<open>The four colour objects of lines 29-32 and the two particle types of line 84.\<close>

datatype Color = colorNeedleLight | colorNeedleDark | colorGold | colorGoldHot

datatype ParticleType = ornament | needle

text \<open>
  \<open>ParticleData\<close> is imported from \<open>../types\<close>; its fields are those of the object
  built at lines 75-85 (\<open>id\<close> and \<open>type\<close> are written \<open>pid\<close> and \<open>ptype\<close> here).
\<close>

record ParticleData =
  pid :: nat
  scatterPosition :: Vector3
  treePosition :: Vector3
  textPosition :: Vector3
  currentPosition :: Vector3
  color :: Color
  scale :: real
  rotationSpeed :: Vector3
  ptype :: ParticleType

text \<open>
  \<open>CONFIG\<close> is imported from \<open>../constants\<close>; the source reads these four fields of it.
\<close>

record Config =
  particleCount :: nat
  scatterRadius :: real
  treeHeight :: real
  treeBaseRadius :: real

text \<open>
  Lines 34-86, one iteration of the loop. \<open>Math.random()\<close> is a source of numbers in
  \<open>[0, 1)\<close>: \<open>rnd k\<close> is what its \<open>k\<close>-th call returns. Every iteration makes twelve
  calls, in this order.
\<close>

definition mkParticle :: "Config \<Rightarrow> (nat \<Rightarrow> real) \<Rightarrow> nat \<Rightarrow> ParticleData" where
  "mkParticle CONFIG rnd i =
     (let isOrnament = rnd (12 * i) > 85 / 100;
          u = rnd (12 * i + 1);
          v = rnd (12 * i + 2);
          theta = 2 * pi * u;
          phi = arccos (2 * v - 1);
          r = scatterRadius CONFIG * root 3 (rnd (12 * i + 3));
          scatterPos = Vector3 (r * sin phi * cos theta) (r * sin phi * sin theta) (r * cos phi);
          hPercent = rnd (12 * i + 4);
          y = (hPercent - 5 / 10) * treeHeight CONFIG;
          currentRadius = treeBaseRadius CONFIG * (1 - hPercent);
          angle = real i * (5 / 10) + rnd (12 * i + 5) * (5 / 10);
          radiusNoise = (rnd (12 * i + 6) - 5 / 10) * (5 / 10);
          finalRadius = max 0 (currentRadius + radiusNoise);
          treePos = Vector3 (cos angle * finalRadius) y (sin angle * finalRadius);
          col = (if isOrnament
                 then (if rnd (12 * i + 7) > 5 / 10 then colorGold else colorGoldHot)
                 else (if rnd (12 * i + 7) > 5 / 10 then colorNeedleLight else colorNeedleDark));
          scl = (if isOrnament
                 then rnd (12 * i + 8) * (15 / 100) + 1 / 10
                 else rnd (12 * i + 8) * (8 / 100) + 2 / 100)
      in \<lparr>pid = i,
          scatterPosition = scatterPos,
          treePosition = treePos,
          textPosition = scatterPos,
          currentPosition = scatterPos,
          color = col,
          scale = scl,
          rotationSpeed = Vector3 (rnd (12 * i + 9)) (rnd (12 * i + 10)) (rnd (12 * i + 11)),
          ptype = (if isOrnament then ornament else needle)\<rparr>)"

text \<open>Lines 27-88: the particle array.\<close>

definition initParticles :: "Config \<Rightarrow> (nat \<Rightarrow> real) \<Rightarrow> ParticleData list" where
  "initParticles CONFIG rnd = map (mkParticle CONFIG rnd) [0 ..< particleCount CONFIG]"

text \<open>Lines 155-162: the target of a particle.\<close>

definition target :: "AppState \<Rightarrow> ParticleData \<Rightarrow> Vector3" where
  "target appSt particle =
     (if appSt = TREE_SHAPE then treePosition particle
      else if appSt = TEXT_SHAPE then textPosition particle
      else scatterPosition particle)"

text \<open>Line 166.\<close>

definition lerpSpeed :: "AppState \<Rightarrow> real" where
  "lerpSpeed appSt = (if appSt = TEXT_SHAPE then 2 else 25 / 10)"

text \<open>
  Lines 172-193: the mouse repulsion of the working copy \<open>pos\<close>. \<open>hit\<close> is the result of
  \<open>intersectPlane\<close> (\<open>None\<close> for \<open>null\<close>), \<open>mouse\<close> is \<open>mouse3D.current\<close>.
\<close>

definition repulse :: "bool \<Rightarrow> Vector3 option \<Rightarrow> Vector3 \<Rightarrow> Vector3 \<Rightarrow> Vector3" where
  "repulse isInteractionActive hit mouse pos =
     (if isInteractionActive \<and> hit \<noteq> None then
        (let dst = distanceTo pos mouse;
             repulsionRadius = 8
         in if dst < repulsionRadius then
              (let strength = (repulsionRadius - dst) / repulsionRadius;
                   dx = vx pos - vx mouse;
                   dy = vy pos - vy mouse;
                   dz = vz pos - vz mouse;
                   len = sqrt (dx * dx + dy * dy + dz * dz)
               in if len > 1 / 100 then
                    (let push = 5 * strength
                     in Vector3 (vx pos + (dx / len) * push)
                                (vy pos + (dy / len) * push)
                                (vz pos + (dz / len) * push))
                  else pos)
            else pos)
      else pos)"

text \<open>Lines 196-198: the vertical hover offset.\<close>

definition hoverY :: "AppState \<Rightarrow> real \<Rightarrow> ParticleData \<Rightarrow> real" where
  "hoverY appSt time particle =
     (let isScattered = (appSt = SCATTERED);
          noiseAmp = (if isScattered then 5 / 10 else 1 / 10);
          noiseFreq = (if isScattered then 5 / 10 else 15 / 10)
      in sin (time * noiseFreq + real (pid particle)) * noiseAmp)"

text \<open>Lines 209-215: the scale multiplier.\<close>

definition scaleMult :: "AppState \<Rightarrow> real \<Rightarrow> ParticleData \<Rightarrow> real" where
  "scaleMult appSt time particle =
     (let m = (if ptype particle = ornament
               then 1 + sin (time * 3 + real (pid particle)) * (2 / 10) else 1)
      in if appSt = TEXT_SHAPE then m * (12 / 10) else m)"

text \<open>
  What \<open>tempObject\<close> holds when \<open>updateMatrix\<close> is called (lines 201-219): the
  transform written to the instanced mesh for the particle.
\<close>

record Transform =
  position :: Vector3
  rotationX :: real
  rotationY :: real
  scaleScalar :: real

text \<open>
  Lines 153-221, the body of \<open>particles.forEach\<close>: the particle with its
  \<open>currentPosition\<close> moved, and the transform of its instance.
\<close>

definition updateParticle ::
  "AppState \<Rightarrow> Vector3 option \<Rightarrow> Vector3 \<Rightarrow> real \<Rightarrow> real \<Rightarrow> ParticleData \<Rightarrow> ParticleData \<times> Transform" where
  "updateParticle appSt hit mouse delta time particle =
     (let isScattered = (appSt = SCATTERED);
          isText = (appSt = TEXT_SHAPE);
          isInteractionActive = (isScattered \<or> isText);
          particle' = particle\<lparr>currentPosition :=
                        lerp (currentPosition particle) (target appSt particle)
                          (delta * lerpSpeed appSt)\<rparr>;
          pos = repulse isInteractionActive hit mouse (currentPosition particle')
      in (particle',
          \<lparr>position = Vector3 (vx pos) (vy pos + hoverY appSt time particle') (vz pos),
           rotationX = time * vx (rotationSpeed particle'),
           rotationY = time * vy (rotationSpeed particle'),
           scaleScalar = scale particle' * scaleMult appSt time particle'\<rparr>))"

text \<open>
  Lines 135-224, one call of the \<open>useFrame\<close> callback. \<open>mesh\<close> tells whether
  \<open>meshRef.current\<close> is set.
\<close>

record Scene =
  particles :: "ParticleData list"
  mouse3D :: Vector3

definition useFrame ::
  "bool \<Rightarrow> AppState \<Rightarrow> Vector3 option \<Rightarrow> real \<Rightarrow> real \<Rightarrow> Scene \<Rightarrow> Scene \<times> Transform list" where
  "useFrame mesh appSt hit delta time scene =
     (if \<not> mesh then (scene, [])
      else
        (let mouse = (case hit of Some h \<Rightarrow> h | None \<Rightarrow> mouse3D scene);
             updated = map (updateParticle appSt hit mouse delta time) (particles scene)
         in (\<lparr>particles = map fst updated, mouse3D = mouse\<rparr>, map snd updated)))"

section \<open>Frame sequences and sample inputs\<close>

text \<open>
  \<open>advancing t fs\<close>: every frame of \<open>fs\<close> passes the tests of lines 100 and 104 when
  the frames arrive in this order after a detection at video time \<open>t\<close>, so that each of
  them is handed to the detector.
\<close>

fun advancing :: "real \<Rightarrow> Frame list \<Rightarrow> bool" where
  "advancing t [] = True"
| "advancing t (f # fs) = (ready f \<and> currentTime f \<noteq> t \<and> advancing (currentTime f) fs)"

text \<open>
  Successive calls of the \<open>forEach\<close> body on one particle, with the application state
  and \<open>delta\<close> fixed; each frame brings its own \<open>hit\<close>, \<open>mouse3D.current\<close> and
  elapsed time.
\<close>

fun frames :: "AppState \<Rightarrow> real \<Rightarrow> (Vector3 option \<times> Vector3 \<times> real) list \<Rightarrow> ParticleData \<Rightarrow> ParticleData" where
  "frames st delta [] p = p"
| "frames st delta ((hit, mouse, time) # ins) p =
     frames st delta ins (fst (updateParticle st hit mouse delta time p))"

text \<open>
  Sample inputs. \<open>flatHand r\<close> is a hand of 21 landmarks with the wrist at the origin and
  every other landmark at distance \<open>\<bar>r\<bar>\<close> from it; \<open>shortFrame\<close> carries a hand of 20
  landmarks only; \<open>spreadHand k\<close> has its wrist off the origin and its four fingertips in
  four different directions, at distances \<open>5k\<close>, \<open>5k\<close>, \<open>5k\<close> and \<open>k\<close> from the wrist.
\<close>

definition flatHand :: "real \<Rightarrow> Landmark list" where
  "flatHand r = Landmark 0 0 0 # replicate 20 (Landmark r 0 0)"

definition handFrame :: "real \<Rightarrow> real \<Rightarrow> int \<Rightarrow> Frame" where
  "handFrame t r n = \<lparr>ready = True, currentTime = t, detected = [flatHand r], dateNow = n\<rparr>"

definition noHandFrame :: "real \<Rightarrow> int \<Rightarrow> Frame" where
  "noHandFrame t n = \<lparr>ready = True, currentTime = t, detected = [], dateNow = n\<rparr>"

definition shortFrame :: "real \<Rightarrow> int \<Rightarrow> Frame" where
  "shortFrame t n =
     \<lparr>ready = True, currentTime = t, detected = [replicate 20 (Landmark 0 0 0)], dateNow = n\<rparr>"

definition spreadHand :: "real \<Rightarrow> Landmark list" where
  "spreadHand k =
     (let w = Landmark (1 / 10) (2 / 10) (3 / 10)
      in [w, w, w, w, w, w, w, w,
          Landmark (1 / 10 + 3 * k) (2 / 10 + 4 * k) (3 / 10),
          w, w, w,
          Landmark (1 / 10) (2 / 10 + 3 * k) (3 / 10 + 4 * k),
          w, w, w,
          Landmark (1 / 10 + 4 * k) (2 / 10) (3 / 10 + 3 * k),
          w, w, w,
          Landmark (1 / 10) (2 / 10) (3 / 10 + k)])"

text \<open>The state at mount: \<open>SCATTERED\<close>, no open hand timed, \<open>lastVideoTime = -1\<close> (line 16).\<close>

definition initialState :: GestureState where
  "initialState = \<lparr>appState = SCATTERED, openHandStartTime = 0, lastVideoTime = - 1\<rparr>"

text \<open>Sample particles, a scene and a sample random source.\<close>

definition testParticle :: ParticleData where
  "testParticle =
     \<lparr>pid = 0, scatterPosition = Vector3 0 0 0, treePosition = Vector3 1 0 0,
      textPosition = Vector3 0 0 0, currentPosition = Vector3 0 0 0, color = colorGold,
      scale = 1 / 10, rotationSpeed = Vector3 0 0 0, ptype = ornament\<rparr>"

definition nearParticle :: ParticleData where
  "nearParticle =
     \<lparr>pid = 0, scatterPosition = Vector3 (1 / 100) 0 0, treePosition = Vector3 1 0 0,
      textPosition = Vector3 0 0 0, currentPosition = Vector3 (1 / 100) 0 0, color = colorGold,
      scale = 1 / 10, rotationSpeed = Vector3 0 0 0, ptype = ornament\<rparr>"

definition testScene :: Scene where
  "testScene = \<lparr>particles = [testParticle], mouse3D = Vector3 0 0 0\<rparr>"

definition testRandom :: "nat \<Rightarrow> real" where
  "testRandom k = (if k = 0 then 9 / 10 else 1 / 2)"

definition testConfig :: Config where
  "testConfig = \<lparr>particleCount = 2, scatterRadius = 20, treeHeight = 15, treeBaseRadius = 6\<rparr>"

section \<open>The gesture state machine\<close>

lemma elemAt_flatHand:
  "elemAt (flatHand r) 0 = Some (Landmark 0 0 0)"
  "elemAt (flatHand r) 8 = Some (Landmark r 0 0)"
  "elemAt (flatHand r) 12 = Some (Landmark r 0 0)"
  "elemAt (flatHand r) 16 = Some (Landmark r 0 0)"
  "elemAt (flatHand r) 20 = Some (Landmark r 0 0)"
  by (simp_all add: elemAt_def flatHand_def nth_Cons')

lemma avgDist_flatHand: "avgDist (flatHand r) = Inr \<bar>r\<bar>"
  by (simp add: avgDist_def elemAt_flatHand tipDist_def)

lemma avgDist_short: "length lms < 21 \<Longrightarrow> avgDist lms = Inl TypeError"
  by (auto simp add: avgDist_def elemAt_def tipDist_def split: sum.splits option.splits)

lemma sumDists_ok:
  "wrist \<noteq> None \<Longrightarrow> \<forall>t\<in>set tips. t \<noteq> None \<Longrightarrow> \<exists>r. sumDists wrist tips acc = Inr r"
  by (induction tips arbitrary: acc) (auto simp add: tipDist_def split: option.splits)

lemma avgDist_long: "21 \<le> length lms \<Longrightarrow> \<exists>d. avgDist lms = Inr d"
proof -
  assume len: "21 \<le> length lms"
  have "\<exists>r. sumDists (elemAt lms 0) (map (elemAt lms) [8, 12, 16, 20]) 0 = Inr r"
    by (rule sumDists_ok) (use len in \<open>auto simp add: elemAt_def\<close>)
  then obtain r where r: "sumDists (elemAt lms 0) (map (elemAt lms) [8, 12, 16, 20]) 0 = Inr r"
    by blast
  show ?thesis
    by (simp only: avgDist_def Let_def r sum.case) blast
qed

lemma predictWebcam_fresh:
  "ready f \<Longrightarrow> currentTime f \<noteq> lastVideoTime s \<Longrightarrow>
   predictWebcam f s = handleResult (detected f) (dateNow f) (s\<lparr>lastVideoTime := currentTime f\<rparr>)"
  by (simp add: predictWebcam_def)

lemma predictWebcam_stale:
  "\<not> ready f \<or> currentTime f = lastVideoTime s \<Longrightarrow> predictWebcam f s = (Inr (), s)"
  by (auto simp add: predictWebcam_def)

lemma handleResult_OPEN:
  "signal result = Inr OPEN \<Longrightarrow>
   handleResult result now s =
     (Inr (),
      if openHandStartTime s = 0 then s\<lparr>openHandStartTime := now, appState := SCATTERED\<rparr>
      else if now - openHandStartTime s > 5000 then s\<lparr>appState := TEXT_SHAPE\<rparr>
      else s\<lparr>appState := (if appState s = TEXT_SHAPE then TEXT_SHAPE else SCATTERED)\<rparr>)"
  by (auto simp add: signal_def handleResult_def classify_def split: list.splits sum.splits if_splits)

lemma handleResult_CLOSED:
  "signal result = Inr CLOSED \<Longrightarrow>
   handleResult result now s = (Inr (), s\<lparr>openHandStartTime := 0, appState := TREE_SHAPE\<rparr>)"
  by (auto simp add: signal_def handleResult_def classify_def split: list.splits sum.splits if_splits)

lemma handleResult_UNKNOWN:
  "signal result = Inr UNKNOWN \<Longrightarrow>
   handleResult result now s =
     (Inr (), if result = [] then s\<lparr>openHandStartTime := 0\<rparr> else s)"
  by (auto simp add: signal_def handleResult_def classify_def split: list.splits sum.splits if_splits)

lemma handleResult_raise:
  "signal result = Inl e \<Longrightarrow> handleResult result now s = (Inl e, s)"
  by (auto simp add: signal_def handleResult_def split: list.splits sum.splits)

lemma handleResult_short:
  "length landmarks < 21 \<Longrightarrow> handleResult (landmarks # hs) n t = (Inl TypeError, t)"
  by (simp add: avgDist_short handleResult_def)

lemma predictWebcam_OPEN_unset:
  assumes "openHandStartTime s = 0" and "ready f" and "currentTime f \<noteq> lastVideoTime s"
    and "signal (detected f) = Inr OPEN"
  shows "predictWebcam f s =
     (Inr (), s\<lparr>lastVideoTime := currentTime f, openHandStartTime := dateNow f,
                appState := SCATTERED\<rparr>)"
  using assms by (simp add: predictWebcam_fresh handleResult_OPEN)

lemma predictWebcam_noHand:
  assumes "ready f" and "currentTime f \<noteq> lastVideoTime s" and "detected f = []"
  shows "predictWebcam f s =
     (Inr (), s\<lparr>lastVideoTime := currentTime f, openHandStartTime := 0\<rparr>)"
  using assms by (simp add: predictWebcam_fresh handleResult_def)

lemma run_noHand_OPEN:
  assumes "advancing (lastVideoTime s) [n, f]" and "detected n = []"
    and "signal (detected f) = Inr OPEN"
  shows "run [n, f] s =
     (Inr (), s\<lparr>lastVideoTime := currentTime f, openHandStartTime := dateNow f,
                appState := SCATTERED\<rparr>)"
proof -
  let ?s1 = "s\<lparr>lastVideoTime := currentTime n, openHandStartTime := 0\<rparr>"
  have a: "predictWebcam n s = (Inr (), ?s1)"
    using assms by (intro predictWebcam_noHand) simp_all
  have b: "predictWebcam f ?s1 =
     (Inr (), ?s1\<lparr>lastVideoTime := currentTime f, openHandStartTime := dateNow f,
                  appState := SCATTERED\<rparr>)"
    using assms by (intro predictWebcam_OPEN_unset) simp_all
  show ?thesis
    by (simp add: a b)
qed

lemma avgDist_metric:
  assumes "21 \<le> length landmarks"
  shows "avgDist landmarks = Inr (opennessMetric landmarks)"
  using assms
  by (auto simp add: avgDist_def elemAt_def tipDist_def opennessMetric_def euclidean_def)

lemma sqrt_25_square: "sqrt (25 * k\<^sup>2) = 5 * \<bar>k\<bar>"
proof -
  have "25 * k\<^sup>2 = (5 * k)\<^sup>2"
    by (simp add: power2_eq_square)
  then have "sqrt (25 * k\<^sup>2) = \<bar>5 * k\<bar>"
    by (simp only: real_sqrt_abs)
  then show ?thesis
    by (simp add: abs_mult)
qed

lemma opennessMetric_spreadHand: "opennessMetric (spreadHand k) = 4 * \<bar>k\<bar>"
  by (simp add: opennessMetric_def spreadHand_def Let_def euclidean_def sqrt_25_square)

lemma length_spreadHand: "length (spreadHand k) = 21"
  by (simp add: spreadHand_def Let_def)

lemma signal_cases:
  obtains e where "signal result = Inl e"
  | "signal result = Inr OPEN" | "signal result = Inr CLOSED" | "signal result = Inr UNKNOWN"
proof (cases "signal result")
  case (Inl a)
  then show ?thesis using that by blast
next
  case (Inr b)
  then show ?thesis using that by (cases b) auto
qed

lemma signal_hand: "avgDist lms = Inr d \<Longrightarrow> signal (lms # hs) = Inr (classify d)"
  by (simp add: signal_def)

lemma signal_flatHand: "signal (flatHand r # hs) = Inr (classify \<bar>r\<bar>)"
  by (simp add: signal_hand avgDist_flatHand)

lemma signal_nil: "signal [] = Inr UNKNOWN"
  by (simp add: signal_def)

lemma classify_eval:
  "classify (2 / 5) = OPEN" "classify (3 / 10) = UNKNOWN" "classify (1 / 5) = CLOSED"
  by (simp_all add: classify_def OPEN_THRESHOLD_def CLOSE_THRESHOLD_def)

lemma classify_iff:
  "classify d = OPEN \<longleftrightarrow> d > 35 / 100"
  "classify d = CLOSED \<longleftrightarrow> d < 25 / 100"
  "classify d = UNKNOWN \<longleftrightarrow> 25 / 100 \<le> d \<and> d \<le> 35 / 100"
  by (auto simp add: classify_def OPEN_THRESHOLD_def CLOSE_THRESHOLD_def)

lemma signal_eval:
  "signal (detected (handFrame t (2 / 5) n)) = Inr OPEN"
  "signal (detected (handFrame t (3 / 10) n)) = Inr UNKNOWN"
  "signal (detected (handFrame t (1 / 5) n)) = Inr CLOSED"
  "signal (detected (noHandFrame t n)) = Inr UNKNOWN"
  by (simp_all add: handFrame_def noHandFrame_def signal_def avgDist_flatHand classify_eval)

lemma frame_eval:
  "ready (handFrame t r n)" "currentTime (handFrame t r n) = t" "dateNow (handFrame t r n) = n"
  "detected (handFrame t r n) \<noteq> []"
  "ready (noHandFrame t n)" "currentTime (noHandFrame t n) = t" "dateNow (noHandFrame t n) = n"
  "detected (noHandFrame t n) = []"
  by (simp_all add: handFrame_def noHandFrame_def)

lemma run_OPEN:
  assumes "openHandStartTime s \<noteq> 0"
    and "advancing (lastVideoTime s) fs"
    and "\<forall>f\<in>set fs. signal (detected f) = Inr OPEN"
  shows "fst (run fs s) = Inr () \<and>
         openHandStartTime (snd (run fs s)) = openHandStartTime s \<and>
         appState (snd (run fs s)) =
           (if fs = [] then appState s
            else if appState s = TEXT_SHAPE \<or> (\<exists>f\<in>set fs. dateNow f - openHandStartTime s > 5000)
            then TEXT_SHAPE else SCATTERED)"
  using assms
proof (induction fs arbitrary: s)
  case Nil
  then show ?case by simp
next
  case (Cons f fs)
  let ?s1 = "snd (predictWebcam f s)"
  have step: "predictWebcam f s =
      (Inr (), if dateNow f - openHandStartTime s > 5000
               then s\<lparr>lastVideoTime := currentTime f, appState := TEXT_SHAPE\<rparr>
               else s\<lparr>lastVideoTime := currentTime f,
                      appState := (if appState s = TEXT_SHAPE then TEXT_SHAPE else SCATTERED)\<rparr>)"
    using Cons.prems by (simp add: predictWebcam_fresh handleResult_OPEN)
  have "openHandStartTime ?s1 \<noteq> 0" "advancing (lastVideoTime ?s1) fs"
    "\<forall>f\<in>set fs. signal (detected f) = Inr OPEN"
    using Cons.prems by (simp_all add: step)
  from Cons.IH [OF this] show ?case
    by (auto simp add: step)
qed

lemma run_snoc:
  "run (fs @ [f]) s =
     (case run fs s of (Inl e, s') \<Rightarrow> (Inl e, s') | (Inr u, s') \<Rightarrow> predictWebcam f s')"
  by (induction fs arbitrary: s) (auto split: prod.splits sum.splits)

lemma run_CLOSED_last:
  assumes "fst (run fs s) = Inr ()" and "signal (detected c) = Inr CLOSED" and "ready c"
    and "currentTime c \<noteq> lastVideoTime (snd (run fs s))"
  shows "appState (snd (run (fs @ [c]) s)) = TREE_SHAPE \<and>
         openHandStartTime (snd (run (fs @ [c]) s)) = 0"
  using assms
  by (cases "run fs s") (auto simp add: run_snoc predictWebcam_fresh handleResult_CLOSED)

lemma advancing_prefix: "advancing t (fs @ gs) \<Longrightarrow> advancing t fs"
  by (induction fs arbitrary: t) auto

lemma advancing_run:
  "advancing (lastVideoTime s) (fs @ gs) \<Longrightarrow> fst (run fs s) = Inr () \<Longrightarrow>
   advancing (lastVideoTime (snd (run fs s))) gs"
proof (induction fs arbitrary: s)
  case Nil
  then show ?case by simp
next
  case (Cons f fs)
  obtain r s1 where p: "predictWebcam f s = (r, s1)" by (cases "predictWebcam f s")
  have "lastVideoTime s1 = currentTime f"
  proof (cases rule: signal_cases [of "detected f"])
    case (1 e)
    then show ?thesis using Cons.prems p by (auto simp add: predictWebcam_fresh handleResult_raise)
  next
    case 2
    then show ?thesis using Cons.prems p
      by (auto simp add: predictWebcam_fresh handleResult_OPEN split: if_splits)
  next
    case 3
    then show ?thesis using Cons.prems p by (auto simp add: predictWebcam_fresh handleResult_CLOSED)
  next
    case 4
    then show ?thesis using Cons.prems p
      by (auto simp add: predictWebcam_fresh handleResult_UNKNOWN split: if_splits)
  qed
  then show ?case using Cons p by (cases r) auto
qed

lemma run_keeps_TEXT:
  assumes "appState s = TEXT_SHAPE" and "openHandStartTime s \<noteq> 0"
    and "\<forall>f\<in>set fs. detected f \<noteq> [] \<and> signal (detected f) \<noteq> Inr CLOSED"
  shows "appState (snd (run fs s)) = TEXT_SHAPE \<and>
         openHandStartTime (snd (run fs s)) = openHandStartTime s"
  using assms
proof (induction fs arbitrary: s)
  case Nil
  then show ?case by simp
next
  case (Cons f fs)
  obtain r s1 where p: "predictWebcam f s = (r, s1)" by (cases "predictWebcam f s")
  have keep: "appState s1 = TEXT_SHAPE \<and> openHandStartTime s1 = openHandStartTime s"
  proof (cases "ready f \<and> currentTime f \<noteq> lastVideoTime s")
    case False
    then have "predictWebcam f s = (Inr (), s)"
      by (intro predictWebcam_stale) blast
    then show ?thesis using p Cons.prems by simp
  next
    case True
    then have pw: "predictWebcam f s =
        handleResult (detected f) (dateNow f) (s\<lparr>lastVideoTime := currentTime f\<rparr>)"
      by (simp add: predictWebcam_fresh)
    show ?thesis
    proof (cases rule: signal_cases [of "detected f"])
      case (1 e)
      then show ?thesis using p pw Cons.prems by (auto simp add: handleResult_raise)
    next
      case 2
      then show ?thesis using p pw Cons.prems
        by (auto simp add: handleResult_OPEN split: if_splits)
    next
      case 3
      then show ?thesis using Cons.prems by simp
    next
      case 4
      then show ?thesis using p pw Cons.prems
        by (auto simp add: handleResult_UNKNOWN split: if_splits)
    qed
  qed
  show ?case
  proof (cases r)
    case (Inl e)
    then show ?thesis using p keep by simp
  next
    case (Inr u)
    have "appState (snd (run fs s1)) = TEXT_SHAPE \<and>
         openHandStartTime (snd (run fs s1)) = openHandStartTime s1"
      by (rule Cons.IH) (use keep Cons.prems in simp_all)
    then show ?thesis using p keep Inr by simp
  qed
qed

lemma predictWebcam_leaves_TEXT:
  assumes "appState s = TEXT_SHAPE" and "appState (snd (predictWebcam f s)) \<noteq> TEXT_SHAPE"
  shows "signal (detected f) = Inr CLOSED \<or>
         (signal (detected f) = Inr OPEN \<and> openHandStartTime s = 0)"
proof (cases "ready f \<and> currentTime f \<noteq> lastVideoTime s")
  case False
  then have "predictWebcam f s = (Inr (), s)"
    by (intro predictWebcam_stale) blast
  then show ?thesis using assms by simp
next
  case True
  then have pw: "predictWebcam f s =
      handleResult (detected f) (dateNow f) (s\<lparr>lastVideoTime := currentTime f\<rparr>)"
    by (simp add: predictWebcam_fresh)
  show ?thesis
  proof (cases rule: signal_cases [of "detected f"])
    case (1 e)
    then show ?thesis using pw assms by (auto simp add: handleResult_raise)
  next
    case 2
    then show ?thesis using pw assms by (auto simp add: handleResult_OPEN split: if_splits)
  next
    case 3
    then show ?thesis by simp
  next
    case 4
    then show ?thesis using pw assms by (auto simp add: handleResult_UNKNOWN split: if_splits)
  qed
qed

lemma predictWebcam_UNKNOWN_appState:
  assumes "signal (detected f) = Inr UNKNOWN"
  shows "appState (snd (predictWebcam f s)) = appState s"
  using assms by (auto simp add: predictWebcam_def handleResult_UNKNOWN)

lemma run_hold:
  assumes "\<forall>g\<in>set fs. \<exists>lms hs. detected g = lms # hs \<and> avgDist lms = Inr (30 / 100)"
  shows "fst (run fs s) = Inr () \<and> appState (snd (run fs s)) = appState s \<and>
         openHandStartTime (snd (run fs s)) = openHandStartTime s"
  using assms
proof (induction fs arbitrary: s)
  case Nil
  then show ?case by simp
next
  case (Cons f fs)
  obtain lms hs where d: "detected f = lms # hs" "avgDist lms = Inr (30 / 100)"
    using Cons.prems by auto
  have u: "signal (detected f) = Inr UNKNOWN"
    using d by (simp add: signal_def classify_iff)
  have "predictWebcam f s = (Inr (), s) \<or>
        predictWebcam f s = (Inr (), s\<lparr>lastVideoTime := currentTime f\<rparr>)"
    using u d by (simp add: predictWebcam_def handleResult_UNKNOWN)
  then show ?case
    using Cons.IH [of s] Cons.IH [of "s\<lparr>lastVideoTime := currentTime f\<rparr>"] Cons.prems
    by auto
qed

text \<open>
  Claim C2 (dwell gate). Start with the timer unset and feed open-hand frames, the first
  one at a clock reading \<open>dateNow f0\<close> other than 0 (the value the source uses for
  "unset"). While no frame is more than 5000 ms after the first, the state is
  \<open>SCATTERED\<close>; as soon as one frame is more than 5000 ms after the first, the state is
  \<open>TEXT_SHAPE\<close> and stays so on every further open-hand frame; the timer keeps the time of
  the first frame throughout. One closed-fist frame after that gives \<open>TREE_SHAPE\<close> and
  unsets the timer.
\<close>

theorem dwell_gate:
  assumes unset: "openHandStartTime s = 0"
    and t0: "dateNow f0 \<noteq> 0"
    and adv: "advancing (lastVideoTime s) (f0 # fs)"
    and opn: "\<forall>f\<in>set (f0 # fs). signal (detected f) = Inr OPEN"
  shows "((\<forall>f\<in>set fs. dateNow f - dateNow f0 \<le> 5000) \<longrightarrow>
            appState (snd (run (f0 # fs) s)) = SCATTERED) \<and>
         ((\<exists>f\<in>set fs. dateNow f - dateNow f0 > 5000) \<longrightarrow>
            appState (snd (run (f0 # fs) s)) = TEXT_SHAPE) \<and>
         fst (run (f0 # fs) s) = Inr () \<and>
         openHandStartTime (snd (run (f0 # fs) s)) = dateNow f0 \<and>
         (advancing (lastVideoTime s) (f0 # fs @ [c]) \<and> signal (detected c) = Inr CLOSED \<longrightarrow>
            appState (snd (run (f0 # fs @ [c]) s)) = TREE_SHAPE \<and>
            openHandStartTime (snd (run (f0 # fs @ [c]) s)) = 0)"
proof -
  let ?s1 = "s\<lparr>lastVideoTime := currentTime f0, openHandStartTime := dateNow f0,
               appState := SCATTERED\<rparr>"
  have first: "predictWebcam f0 s = (Inr (), ?s1)"
    using unset adv opn by (simp add: predictWebcam_fresh handleResult_OPEN)
  have run1: "run (f0 # fs) s = run fs ?s1"
    by (simp add: first)
  have run2: "run (f0 # fs @ [c]) s = run (fs @ [c]) ?s1"
    by (simp add: first)
  have advfs: "advancing (lastVideoTime ?s1) fs"
    using adv by simp
  have inv: "fst (run fs ?s1) = Inr () \<and>
         openHandStartTime (snd (run fs ?s1)) = openHandStartTime ?s1 \<and>
         appState (snd (run fs ?s1)) =
           (if fs = [] then appState ?s1
            else if appState ?s1 = TEXT_SHAPE \<or> (\<exists>f\<in>set fs. dateNow f - openHandStartTime ?s1 > 5000)
            then TEXT_SHAPE else SCATTERED)"
    by (rule run_OPEN) (use t0 advfs opn in simp_all)
  have scattered: "(\<forall>f\<in>set fs. dateNow f - dateNow f0 \<le> 5000) \<longrightarrow>
      appState (snd (run fs ?s1)) = SCATTERED"
    using inv by (auto simp add: not_less [symmetric])
  have toText: "(\<exists>f\<in>set fs. dateNow f - dateNow f0 > 5000) \<longrightarrow>
      appState (snd (run fs ?s1)) = TEXT_SHAPE"
    using inv by auto
  have timer: "openHandStartTime (snd (run fs ?s1)) = dateNow f0"
    using inv by simp
  have closed: "advancing (lastVideoTime s) (f0 # fs @ [c]) \<and> signal (detected c) = Inr CLOSED \<longrightarrow>
      appState (snd (run (fs @ [c]) ?s1)) = TREE_SHAPE \<and>
      openHandStartTime (snd (run (fs @ [c]) ?s1)) = 0"
  proof (intro impI)
    assume h: "advancing (lastVideoTime s) (f0 # fs @ [c]) \<and> signal (detected c) = Inr CLOSED"
    then have adv1: "advancing (lastVideoTime ?s1) (fs @ [c])"
      by simp
    have "advancing (lastVideoTime (snd (run fs ?s1))) [c]"
      using advancing_run [OF adv1] inv by simp
    then have "ready c" "currentTime c \<noteq> lastVideoTime (snd (run fs ?s1))"
      by simp_all
    with inv h show "appState (snd (run (fs @ [c]) ?s1)) = TREE_SHAPE \<and>
        openHandStartTime (snd (run (fs @ [c]) ?s1)) = 0"
      by (intro run_CLOSED_last) simp_all
  qed
  show ?thesis
    unfolding run1 run2 using scattered toText timer inv closed by simp
qed

text \<open>
  Open hand from clock 1000 on: still \<open>SCATTERED\<close> at 5999 (4999 ms), \<open>TEXT_SHAPE\<close> from
  6001 on, \<open>TREE_SHAPE\<close> after the closed fist.
\<close>

theorem dwell_gate_witness:
  "appState (snd (run [handFrame 1 (2 / 5) 1000, handFrame 2 (2 / 5) 5999] initialState))
     = SCATTERED \<and>
   appState (snd (run [handFrame 1 (2 / 5) 1000, handFrame 2 (2 / 5) 5999,
       handFrame 3 (2 / 5) 6001, handFrame 4 (2 / 5) 6002] initialState)) = TEXT_SHAPE \<and>
   appState (snd (run [handFrame 1 (2 / 5) 1000, handFrame 2 (2 / 5) 5999,
       handFrame 3 (2 / 5) 6001, handFrame 4 (2 / 5) 6002, handFrame 5 (1 / 5) 6003]
       initialState)) = TREE_SHAPE \<and>
   openHandStartTime (snd (run [handFrame 1 (2 / 5) 1000, handFrame 2 (2 / 5) 5999,
       handFrame 3 (2 / 5) 6001, handFrame 4 (2 / 5) 6002, handFrame 5 (1 / 5) 6003]
       initialState)) = 0"
proof -
  have a: "openHandStartTime initialState = 0" "lastVideoTime initialState = - 1"
    by (simp_all add: initialState_def)
  have short: "appState (snd (run [handFrame 1 (2 / 5) 1000, handFrame 2 (2 / 5) 5999]
      initialState)) = SCATTERED"
    using dwell_gate [of initialState "handFrame 1 (2 / 5) 1000" "[handFrame 2 (2 / 5) 5999]"
        "handFrame 5 (1 / 5) 6003"]
    by (simp add: a frame_eval signal_eval del: run.simps)
  have long: "appState (snd (run [handFrame 1 (2 / 5) 1000, handFrame 2 (2 / 5) 5999,
       handFrame 3 (2 / 5) 6001, handFrame 4 (2 / 5) 6002] initialState)) = TEXT_SHAPE \<and>
   appState (snd (run [handFrame 1 (2 / 5) 1000, handFrame 2 (2 / 5) 5999,
       handFrame 3 (2 / 5) 6001, handFrame 4 (2 / 5) 6002, handFrame 5 (1 / 5) 6003]
       initialState)) = TREE_SHAPE \<and>
   openHandStartTime (snd (run [handFrame 1 (2 / 5) 1000, handFrame 2 (2 / 5) 5999,
       handFrame 3 (2 / 5) 6001, handFrame 4 (2 / 5) 6002, handFrame 5 (1 / 5) 6003]
       initialState)) = 0"
    using dwell_gate [of initialState "handFrame 1 (2 / 5) 1000"
        "[handFrame 2 (2 / 5) 5999, handFrame 3 (2 / 5) 6001, handFrame 4 (2 / 5) 6002]"
        "handFrame 5 (1 / 5) 6003"]
    by (simp add: a frame_eval signal_eval del: run.simps)
  from short long show ?thesis by blast
qed

text \<open>
  Claim C3 (leaving \<open>TEXT_SHAPE\<close>). As stated the claim fails: a frame without a hand keeps
  \<open>TEXT_SHAPE\<close> but unsets the timer, and the next open-hand frame then starts a new
  timing and sets \<open>SCATTERED\<close> (lines 133-135). What holds: a call of \<open>predictWebcam\<close>
  takes the state out of \<open>TEXT_SHAPE\<close> only on a closed-fist frame, or on an open-hand
  frame that finds the timer unset; while the timer is set, no sequence of frames that
  show a hand and are not closed-fist frames changes the state or the timer; a frame
  without a hand keeps \<open>TEXT_SHAPE\<close> and unsets the timer; and every open-hand frame that
  finds the timer unset sets \<open>SCATTERED\<close> and starts the timer at its clock reading, so
  that from \<open>TEXT_SHAPE\<close> a frame without a hand followed by an open-hand frame always
  ends in \<open>SCATTERED\<close>.
\<close>

theorem text_exit:
  "(appState s = TEXT_SHAPE \<and> appState (snd (predictWebcam f s)) \<noteq> TEXT_SHAPE \<longrightarrow>
      signal (detected f) = Inr CLOSED \<or>
      (signal (detected f) = Inr OPEN \<and> openHandStartTime s = 0)) \<and>
   (appState s = TEXT_SHAPE \<and> openHandStartTime s \<noteq> 0 \<and>
    (\<forall>g\<in>set fs. detected g \<noteq> [] \<and> signal (detected g) \<noteq> Inr CLOSED) \<longrightarrow>
      appState (snd (run fs s)) = TEXT_SHAPE \<and>
      openHandStartTime (snd (run fs s)) = openHandStartTime s) \<and>
   (appState s = TEXT_SHAPE \<and> ready f \<and> currentTime f \<noteq> lastVideoTime s \<and>
    detected f = [] \<longrightarrow>
      appState (snd (predictWebcam f s)) = TEXT_SHAPE \<and>
      openHandStartTime (snd (predictWebcam f s)) = 0) \<and>
   (appState s = TEXT_SHAPE \<and> openHandStartTime s = 0 \<and> ready f \<and>
    currentTime f \<noteq> lastVideoTime s \<and> signal (detected f) = Inr OPEN \<longrightarrow>
      appState (snd (predictWebcam f s)) = SCATTERED \<and>
      openHandStartTime (snd (predictWebcam f s)) = dateNow f) \<and>
   (appState s = TEXT_SHAPE \<and> advancing (lastVideoTime s) [n, g] \<and> detected n = [] \<and>
    signal (detected g) = Inr OPEN \<longrightarrow>
      appState (snd (run [n, g] s)) = SCATTERED \<and>
      openHandStartTime (snd (run [n, g] s)) = dateNow g)"
proof -
  have leave: "appState s = TEXT_SHAPE \<and> appState (snd (predictWebcam f s)) \<noteq> TEXT_SHAPE \<longrightarrow>
      signal (detected f) = Inr CLOSED \<or>
      (signal (detected f) = Inr OPEN \<and> openHandStartTime s = 0)"
    using predictWebcam_leaves_TEXT [of s f] by simp
  have keep: "appState s = TEXT_SHAPE \<and> openHandStartTime s \<noteq> 0 \<and>
    (\<forall>g\<in>set fs. detected g \<noteq> [] \<and> signal (detected g) \<noteq> Inr CLOSED) \<longrightarrow>
      appState (snd (run fs s)) = TEXT_SHAPE \<and>
      openHandStartTime (snd (run fs s)) = openHandStartTime s"
    using run_keeps_TEXT [of s fs] by simp
  have nohand: "appState s = TEXT_SHAPE \<and> ready f \<and> currentTime f \<noteq> lastVideoTime s \<and>
    detected f = [] \<longrightarrow>
      appState (snd (predictWebcam f s)) = TEXT_SHAPE \<and>
      openHandStartTime (snd (predictWebcam f s)) = 0"
    by (simp add: predictWebcam_noHand)
  have restart: "appState s = TEXT_SHAPE \<and> openHandStartTime s = 0 \<and> ready f \<and>
    currentTime f \<noteq> lastVideoTime s \<and> signal (detected f) = Inr OPEN \<longrightarrow>
      appState (snd (predictWebcam f s)) = SCATTERED \<and>
      openHandStartTime (snd (predictWebcam f s)) = dateNow f"
    by (simp add: predictWebcam_OPEN_unset)
  have two: "appState s = TEXT_SHAPE \<and> advancing (lastVideoTime s) [n, g] \<and> detected n = [] \<and>
    signal (detected g) = Inr OPEN \<longrightarrow>
      appState (snd (run [n, g] s)) = SCATTERED \<and>
      openHandStartTime (snd (run [n, g] s)) = dateNow g"
    by (simp add: run_noHand_OPEN del: run.simps advancing.simps)
  show ?thesis
    by (rule conjI [OF leave conjI [OF keep conjI [OF nohand conjI [OF restart two]]]])
qed

text \<open>
  From \<open>TEXT_SHAPE\<close> with the timer at 1000: an open-hand and a dead-band frame keep the
  state; a no-hand frame keeps it and unsets the timer; with the timer unset an
  open-hand frame at 7000 gives \<open>SCATTERED\<close> and the timer 7000; a no-hand frame followed
  by an open-hand frame at 7100 gives \<open>SCATTERED\<close> and the timer 7100.
\<close>

theorem text_exit_witness:
  "appState (snd (run [handFrame 6 (2 / 5) 7000, handFrame 7 (3 / 10) 7100]
      \<lparr>appState = TEXT_SHAPE, openHandStartTime = 1000, lastVideoTime = 5\<rparr>)) = TEXT_SHAPE \<and>
   appState (snd (predictWebcam (noHandFrame 6 7000)
      \<lparr>appState = TEXT_SHAPE, openHandStartTime = 1000, lastVideoTime = 5\<rparr>)) = TEXT_SHAPE \<and>
   openHandStartTime (snd (predictWebcam (noHandFrame 6 7000)
      \<lparr>appState = TEXT_SHAPE, openHandStartTime = 1000, lastVideoTime = 5\<rparr>)) = 0 \<and>
   appState (snd (predictWebcam (handFrame 6 (2 / 5) 7000)
      \<lparr>appState = TEXT_SHAPE, openHandStartTime = 0, lastVideoTime = 5\<rparr>)) = SCATTERED \<and>
   openHandStartTime (snd (predictWebcam (handFrame 6 (2 / 5) 7000)
      \<lparr>appState = TEXT_SHAPE, openHandStartTime = 0, lastVideoTime = 5\<rparr>)) = 7000 \<and>
   appState (snd (run [noHandFrame 6 7000, handFrame 7 (2 / 5) 7100]
      \<lparr>appState = TEXT_SHAPE, openHandStartTime = 1000, lastVideoTime = 5\<rparr>)) = SCATTERED \<and>
   openHandStartTime (snd (run [noHandFrame 6 7000, handFrame 7 (2 / 5) 7100]
      \<lparr>appState = TEXT_SHAPE, openHandStartTime = 1000, lastVideoTime = 5\<rparr>)) = 7100"
proof -
  let ?s = "\<lparr>appState = TEXT_SHAPE, openHandStartTime = 1000, lastVideoTime = 5\<rparr>"
  let ?u = "\<lparr>appState = TEXT_SHAPE, openHandStartTime = 0, lastVideoTime = 5\<rparr>"
  have a: "appState (snd (run [handFrame 6 (2 / 5) 7000, handFrame 7 (3 / 10) 7100] ?s))
      = TEXT_SHAPE"
    using text_exit [of ?s "noHandFrame 6 7000"
        "[handFrame 6 (2 / 5) 7000, handFrame 7 (3 / 10) 7100]"
        "noHandFrame 6 7000" "handFrame 7 (2 / 5) 7100"]
    by (simp add: frame_eval signal_eval del: run.simps)
  have b: "appState (snd (predictWebcam (noHandFrame 6 7000) ?s)) = TEXT_SHAPE \<and>
      openHandStartTime (snd (predictWebcam (noHandFrame 6 7000) ?s)) = 0"
    using text_exit [of ?s "noHandFrame 6 7000" "[]"
        "noHandFrame 6 7000" "handFrame 7 (2 / 5) 7100"]
    by (simp add: frame_eval del: run.simps)
  have c: "appState (snd (predictWebcam (handFrame 6 (2 / 5) 7000) ?u)) = SCATTERED \<and>
      openHandStartTime (snd (predictWebcam (handFrame 6 (2 / 5) 7000) ?u)) = 7000"
    using text_exit [of ?u "handFrame 6 (2 / 5) 7000" "[]"
        "noHandFrame 6 7000" "handFrame 7 (2 / 5) 7100"]
    by (simp add: frame_eval signal_eval del: run.simps)
  have d: "appState (snd (run [noHandFrame 6 7000, handFrame 7 (2 / 5) 7100] ?s)) = SCATTERED \<and>
      openHandStartTime (snd (run [noHandFrame 6 7000, handFrame 7 (2 / 5) 7100] ?s)) = 7100"
    using text_exit [of ?s "noHandFrame 6 7000" "[]"
        "noHandFrame 6 7000" "handFrame 7 (2 / 5) 7100"]
    by (simp add: frame_eval signal_eval del: run.simps)
  show ?thesis
    by (rule conjI [OF a conjI [OF conjunct1 [OF b]
      conjI [OF conjunct2 [OF b] conjI [OF conjunct1 [OF c] conjI [OF conjunct2 [OF c]
      conjI [OF conjunct1 [OF d] conjunct2 [OF d]]]]]]])
qed

text \<open>
  From the initial state: open hand at 1000 and 7000 gives \<open>TEXT_SHAPE\<close>; then one
  frame without a hand (\<open>UNKNOWN\<close>) and one open-hand frame (\<open>OPEN\<close>) give \<open>SCATTERED\<close>.
\<close>

theorem text_exit_counterexample:
  "appState (snd (run [handFrame 1 (2 / 5) 1000, handFrame 2 (2 / 5) 7000] initialState))
     = TEXT_SHAPE \<and>
   signal (detected (noHandFrame 3 7100)) = Inr UNKNOWN \<and>
   signal (detected (handFrame 4 (2 / 5) 7200)) = Inr OPEN \<and>
   appState (snd (run [handFrame 1 (2 / 5) 1000, handFrame 2 (2 / 5) 7000,
      noHandFrame 3 7100, handFrame 4 (2 / 5) 7200] initialState)) = SCATTERED"
  by (simp add: initialState_def predictWebcam_fresh frame_eval handleResult_OPEN
      handleResult_UNKNOWN signal_eval signal_nil)

text \<open>
  Claim C4 (frames that are neither open nor closed). As stated the claim fails for the
  dead band: the source has no branch for a metric between the thresholds, so such a
  frame leaves the timer as it is. What holds, for a frame that is handed to the
  detector: without a hand the timer is unset and the application state is unchanged;
  with a hand whose metric lies in \<open>[0.25, 0.35]\<close> the application state and the timer are
  both unchanged.
\<close>

theorem unknown_frame:
  assumes "ready f" and "currentTime f \<noteq> lastVideoTime s"
  shows "(detected f = [] \<longrightarrow>
            signal (detected f) = Inr UNKNOWN \<and>
            fst (predictWebcam f s) = Inr () \<and>
            appState (snd (predictWebcam f s)) = appState s \<and>
            openHandStartTime (snd (predictWebcam f s)) = 0) \<and>
         (detected f = landmarks # hs \<and> avgDist landmarks = Inr d \<and>
          25 / 100 \<le> d \<and> d \<le> 35 / 100 \<longrightarrow>
            signal (detected f) = Inr UNKNOWN \<and>
            fst (predictWebcam f s) = Inr () \<and>
            appState (snd (predictWebcam f s)) = appState s \<and>
            openHandStartTime (snd (predictWebcam f s)) = openHandStartTime s)"
proof -
  have pw: "predictWebcam f s =
      handleResult (detected f) (dateNow f) (s\<lparr>lastVideoTime := currentTime f\<rparr>)"
    using assms by (simp add: predictWebcam_fresh)
  have "detected f = landmarks # hs \<and> avgDist landmarks = Inr d \<and>
      25 / 100 \<le> d \<and> d \<le> 35 / 100 \<longrightarrow> signal (detected f) = Inr UNKNOWN"
    by (auto simp add: signal_hand classify_iff)
  then show ?thesis
    unfolding pw by (auto simp add: signal_nil handleResult_UNKNOWN)
qed

text \<open>Both kinds of frame, from a state with the timer at 1000.\<close>

theorem unknown_frame_witness:
  "openHandStartTime (snd (predictWebcam (noHandFrame 1 2000)
      \<lparr>appState = TREE_SHAPE, openHandStartTime = 1000, lastVideoTime = 0\<rparr>)) = 0 \<and>
   appState (snd (predictWebcam (noHandFrame 1 2000)
      \<lparr>appState = TREE_SHAPE, openHandStartTime = 1000, lastVideoTime = 0\<rparr>)) = TREE_SHAPE \<and>
   openHandStartTime (snd (predictWebcam (handFrame 1 (3 / 10) 2000)
      \<lparr>appState = TREE_SHAPE, openHandStartTime = 1000, lastVideoTime = 0\<rparr>)) = 1000 \<and>
   appState (snd (predictWebcam (handFrame 1 (3 / 10) 2000)
      \<lparr>appState = TREE_SHAPE, openHandStartTime = 1000, lastVideoTime = 0\<rparr>)) = TREE_SHAPE"
proof -
  let ?s = "\<lparr>appState = TREE_SHAPE, openHandStartTime = 1000, lastVideoTime = 0\<rparr>"
  have a: "openHandStartTime (snd (predictWebcam (noHandFrame 1 2000) ?s)) = 0 \<and>
      appState (snd (predictWebcam (noHandFrame 1 2000) ?s)) = TREE_SHAPE"
    using unknown_frame [of "noHandFrame 1 2000" ?s "[]" "[]" 0]
    by (simp add: frame_eval)
  have b: "openHandStartTime (snd (predictWebcam (handFrame 1 (3 / 10) 2000) ?s)) = 1000 \<and>
      appState (snd (predictWebcam (handFrame 1 (3 / 10) 2000) ?s)) = TREE_SHAPE"
    using unknown_frame [of "handFrame 1 (3 / 10) 2000" ?s "flatHand (3 / 10)" "[]" "3 / 10"]
    by (simp add: frame_eval avgDist_flatHand) (simp add: handFrame_def)
  from a b show ?thesis by simp
qed

text \<open>A dead-band frame (metric 0.3) is \<open>UNKNOWN\<close> and leaves the timer at 1000.\<close>

theorem unknown_frame_counterexample:
  "signal (detected (handFrame 1 (3 / 10) 2000)) = Inr UNKNOWN \<and>
   openHandStartTime \<lparr>appState = SCATTERED, openHandStartTime = 1000, lastVideoTime = 0\<rparr> = 1000 \<and>
   openHandStartTime (snd (predictWebcam (handFrame 1 (3 / 10) 2000)
      \<lparr>appState = SCATTERED, openHandStartTime = 1000, lastVideoTime = 0\<rparr>)) \<noteq> 0"
  by (simp add: predictWebcam_fresh frame_eval handleResult_UNKNOWN signal_eval)

text \<open>
  Claim C5 (thresholds). For a hand of at least 21 landmarks the metric computed by the
  source is the mean Euclidean distance from landmarks 8, 12, 16 and 20 to landmark 0,
  and the signal of the hand is \<open>OPEN\<close> exactly when that metric exceeds 0.35, \<open>CLOSED\<close>
  exactly when it is below 0.25 and \<open>UNKNOWN\<close> exactly in between; no hand is \<open>UNKNOWN\<close>.
  A frame handed to the detector sets \<open>SCATTERED\<close> or \<open>TEXT_SHAPE\<close> on \<open>OPEN\<close> and
  \<open>TREE_SHAPE\<close> on \<open>CLOSED\<close>; an \<open>UNKNOWN\<close> frame leaves the application state as it was.
  Frames of constant metric 0.30 never change the application state or the timer, and
  metrics 0.40 then 0.20 are \<open>OPEN\<close> then \<open>CLOSED\<close>.
\<close>

theorem classifier_hysteresis:
  "(classify d = OPEN \<longleftrightarrow> d > 35 / 100) \<and>
   (classify d = CLOSED \<longleftrightarrow> d < 25 / 100) \<and>
   (classify d = UNKNOWN \<longleftrightarrow> 25 / 100 \<le> d \<and> d \<le> 35 / 100) \<and>
   signal [] = Inr UNKNOWN \<and>
   (avgDist landmarks = Inr d \<longrightarrow> signal (landmarks # hs) = Inr (classify d)) \<and>
   (ready f \<and> currentTime f \<noteq> lastVideoTime s \<and> signal (detected f) = Inr OPEN \<longrightarrow>
      appState (snd (predictWebcam f s)) \<in> {SCATTERED, TEXT_SHAPE}) \<and>
   (ready f \<and> currentTime f \<noteq> lastVideoTime s \<and> signal (detected f) = Inr CLOSED \<longrightarrow>
      appState (snd (predictWebcam f s)) = TREE_SHAPE) \<and>
   (signal (detected f) = Inr UNKNOWN \<longrightarrow>
      appState (snd (predictWebcam f s)) = appState s) \<and>
   ((\<forall>g\<in>set fs. \<exists>lms hs. detected g = lms # hs \<and> avgDist lms = Inr (30 / 100)) \<longrightarrow>
      fst (run fs s) = Inr () \<and> appState (snd (run fs s)) = appState s \<and>
      openHandStartTime (snd (run fs s)) = openHandStartTime s) \<and>
   (avgDist a = Inr (40 / 100) \<and> avgDist b = Inr (20 / 100) \<longrightarrow>
      signal [a] = Inr OPEN \<and> signal [b] = Inr CLOSED) \<and>
   (21 \<le> length landmarks \<longrightarrow>
      avgDist landmarks = Inr (opennessMetric landmarks) \<and>
      (signal (landmarks # hs) = Inr OPEN \<longleftrightarrow> opennessMetric landmarks > 35 / 100) \<and>
      (signal (landmarks # hs) = Inr CLOSED \<longleftrightarrow> opennessMetric landmarks < 25 / 100) \<and>
      (signal (landmarks # hs) = Inr UNKNOWN \<longleftrightarrow>
         25 / 100 \<le> opennessMetric landmarks \<and> opennessMetric landmarks \<le> 35 / 100))"
proof -
  have thresholds: "(classify d = OPEN \<longleftrightarrow> d > 35 / 100) \<and>
      (classify d = CLOSED \<longleftrightarrow> d < 25 / 100) \<and>
      (classify d = UNKNOWN \<longleftrightarrow> 25 / 100 \<le> d \<and> d \<le> 35 / 100)"
    by (simp only: classify_iff)
  have hand: "avgDist landmarks = Inr d \<longrightarrow> signal (landmarks # hs) = Inr (classify d)"
    by (simp add: signal_hand)
  have opn: "ready f \<and> currentTime f \<noteq> lastVideoTime s \<and> signal (detected f) = Inr OPEN \<longrightarrow>
      appState (snd (predictWebcam f s)) \<in> {SCATTERED, TEXT_SHAPE}"
    by (simp add: predictWebcam_fresh handleResult_OPEN)
  have cls: "ready f \<and> currentTime f \<noteq> lastVideoTime s \<and> signal (detected f) = Inr CLOSED \<longrightarrow>
      appState (snd (predictWebcam f s)) = TREE_SHAPE"
    by (simp add: predictWebcam_fresh handleResult_CLOSED)
  have unk: "signal (detected f) = Inr UNKNOWN \<longrightarrow>
      appState (snd (predictWebcam f s)) = appState s"
    by (simp add: predictWebcam_UNKNOWN_appState)
  have hold: "(\<forall>g\<in>set fs. \<exists>lms hs. detected g = lms # hs \<and> avgDist lms = Inr (30 / 100)) \<longrightarrow>
      fst (run fs s) = Inr () \<and> appState (snd (run fs s)) = appState s \<and>
      openHandStartTime (snd (run fs s)) = openHandStartTime s"
    using run_hold [of fs s] by blast
  have seq: "avgDist a = Inr (40 / 100) \<and> avgDist b = Inr (20 / 100) \<longrightarrow>
      signal [a] = Inr OPEN \<and> signal [b] = Inr CLOSED"
    by (simp add: signal_def classify_iff)
  have metric: "21 \<le> length landmarks \<longrightarrow>
      avgDist landmarks = Inr (opennessMetric landmarks) \<and>
      (signal (landmarks # hs) = Inr OPEN \<longleftrightarrow> opennessMetric landmarks > 35 / 100) \<and>
      (signal (landmarks # hs) = Inr CLOSED \<longleftrightarrow> opennessMetric landmarks < 25 / 100) \<and>
      (signal (landmarks # hs) = Inr UNKNOWN \<longleftrightarrow>
         25 / 100 \<le> opennessMetric landmarks \<and> opennessMetric landmarks \<le> 35 / 100)"
    by (simp add: avgDist_metric signal_def classify_iff)
  show ?thesis
    by (rule conjI [OF conjunct1 [OF thresholds] conjI [OF conjunct1 [OF conjunct2 [OF thresholds]]
      conjI [OF conjunct2 [OF conjunct2 [OF thresholds]] conjI [OF signal_nil conjI [OF hand
      conjI [OF opn conjI [OF cls conjI [OF unk conjI [OF hold conjI [OF seq metric]]]]]]]]]])
qed

text \<open>
  The statement at flat hands of metric 0.4, 0.3 and 0.2, at a frame without a hand, and
  at spread hands whose fingertips lie in different directions from a wrist off the
  origin: mean distance 0.4 (open), 0.3 (neither) and 0.2 (closed).
\<close>

theorem classifier_hysteresis_witness:
  "signal [flatHand (2 / 5)] = Inr OPEN \<and> signal [flatHand (1 / 5)] = Inr CLOSED \<and>
   classify (3 / 10) = UNKNOWN \<and>
   appState (snd (run [handFrame 1 (3 / 10) 100, handFrame 2 (3 / 10) 200]
      \<lparr>appState = TREE_SHAPE, openHandStartTime = 1000, lastVideoTime = 0\<rparr>)) = TREE_SHAPE \<and>
   appState (snd (predictWebcam (handFrame 1 (1 / 5) 100) initialState)) = TREE_SHAPE \<and>
   appState (snd (predictWebcam (handFrame 1 (2 / 5) 100) initialState))
     \<in> {SCATTERED, TEXT_SHAPE} \<and>
   appState (snd (predictWebcam (noHandFrame 1 100)
      \<lparr>appState = TREE_SHAPE, openHandStartTime = 1000, lastVideoTime = 0\<rparr>)) = TREE_SHAPE \<and>
   avgDist (spreadHand (1 / 10)) = Inr (2 / 5) \<and>
   signal [spreadHand (1 / 10)] = Inr OPEN \<and>
   signal [spreadHand (3 / 40)] = Inr UNKNOWN \<and>
   signal [spreadHand (1 / 20)] = Inr CLOSED"
proof -
  let ?s = "\<lparr>appState = TREE_SHAPE, openHandStartTime = 1000, lastVideoTime = 0\<rparr>"
  have a: "signal [flatHand (2 / 5)] = Inr OPEN \<and> signal [flatHand (1 / 5)] = Inr CLOSED \<and>
      classify (3 / 10) = UNKNOWN"
    using classifier_hysteresis [where d = "3 / 10" and a = "flatHand (2 / 5)"
        and b = "flatHand (1 / 5)" and fs = "[]" and f = "noHandFrame 1 100" and s = ?s
        and landmarks = "flatHand (3 / 10)" and hs = "[]"]
    by (simp add: avgDist_flatHand)
  have b: "appState (snd (run [handFrame 1 (3 / 10) 100, handFrame 2 (3 / 10) 200] ?s))
      = TREE_SHAPE"
    using classifier_hysteresis [where d = "3 / 10" and a = "flatHand (2 / 5)"
        and b = "flatHand (1 / 5)"
        and fs = "[handFrame 1 (3 / 10) 100, handFrame 2 (3 / 10) 200]"
        and f = "noHandFrame 1 100" and s = ?s
        and landmarks = "flatHand (3 / 10)" and hs = "[]"]
    by (simp add: handFrame_def avgDist_flatHand del: run.simps)
  have c: "appState (snd (predictWebcam (handFrame 1 (1 / 5) 100) initialState)) = TREE_SHAPE"
    using classifier_hysteresis [where d = "3 / 10" and a = "flatHand (2 / 5)"
        and b = "flatHand (1 / 5)" and fs = "[]"
        and f = "handFrame 1 (1 / 5) 100" and s = initialState
        and landmarks = "flatHand (3 / 10)" and hs = "[]"]
    by (simp add: frame_eval signal_eval initialState_def)
  have d: "appState (snd (predictWebcam (handFrame 1 (2 / 5) 100) initialState))
      \<in> {SCATTERED, TEXT_SHAPE}"
    using classifier_hysteresis [where d = "3 / 10" and a = "flatHand (2 / 5)"
        and b = "flatHand (1 / 5)" and fs = "[]"
        and f = "handFrame 1 (2 / 5) 100" and s = initialState
        and landmarks = "flatHand (3 / 10)" and hs = "[]"]
    by (simp add: frame_eval signal_eval initialState_def)
  have e: "appState (snd (predictWebcam (noHandFrame 1 100) ?s)) = TREE_SHAPE"
    using classifier_hysteresis [where d = "3 / 10" and a = "flatHand (2 / 5)"
        and b = "flatHand (1 / 5)" and fs = "[]"
        and f = "noHandFrame 1 100" and s = ?s
        and landmarks = "flatHand (3 / 10)" and hs = "[]"]
    by (simp add: frame_eval signal_eval)
  have m1: "avgDist (spreadHand (1 / 10)) = Inr (2 / 5) \<and>
      signal [spreadHand (1 / 10)] = Inr OPEN"
    using classifier_hysteresis [where d = "3 / 10" and a = "flatHand (2 / 5)"
        and b = "flatHand (1 / 5)" and fs = "[]"
        and f = "noHandFrame 1 100" and s = ?s
        and landmarks = "spreadHand (1 / 10)" and hs = "[]"]
    by (simp add: length_spreadHand opennessMetric_spreadHand)
  have m2: "signal [spreadHand (3 / 40)] = Inr UNKNOWN"
    using classifier_hysteresis [where d = "3 / 10" and a = "flatHand (2 / 5)"
        and b = "flatHand (1 / 5)" and fs = "[]"
        and f = "noHandFrame 1 100" and s = ?s
        and landmarks = "spreadHand (3 / 40)" and hs = "[]"]
    by (simp add: length_spreadHand opennessMetric_spreadHand)
  have m3: "signal [spreadHand (1 / 20)] = Inr CLOSED"
    using classifier_hysteresis [where d = "3 / 10" and a = "flatHand (2 / 5)"
        and b = "flatHand (1 / 5)" and fs = "[]"
        and f = "noHandFrame 1 100" and s = ?s
        and landmarks = "spreadHand (1 / 20)" and hs = "[]"]
    by (simp add: length_spreadHand opennessMetric_spreadHand)
  show ?thesis
    by (rule conjI [OF conjunct1 [OF a] conjI [OF conjunct1 [OF conjunct2 [OF a]]
      conjI [OF conjunct2 [OF conjunct2 [OF a]] conjI [OF b conjI [OF c conjI [OF d
      conjI [OF e conjI [OF conjunct1 [OF m1] conjI [OF conjunct2 [OF m1]
      conjI [OF m2 m3]]]]]]]]]])
qed

text \<open>
  Claim C6 (short landmark lists). As stated the claim fails: the source has no length
  check, and for a list of fewer than 21 landmarks \<open>landmarks[20]\<close> (or an earlier index)
  is \<open>undefined\<close>, so that reading its \<open>x\<close> raises a \<open>TypeError\<close>; the frame gets no signal
  and the loop is not scheduled again. What holds: the raise comes before any write to
  the application state or the timer, which are left as they were; and a list of at
  least 21 landmarks is read in range, has a metric and a signal, and never raises.
\<close>

theorem short_landmarks:
  "(length landmarks < 21 \<longrightarrow>
      avgDist landmarks = Inl TypeError \<and>
      signal (landmarks # hs) = Inl TypeError \<and>
      handleResult (landmarks # hs) now s = (Inl TypeError, s)) \<and>
   (length landmarks < 21 \<and> ready f \<and> currentTime f \<noteq> lastVideoTime s \<and>
    detected f = landmarks # hs \<longrightarrow>
      run (f # fs) s = (Inl TypeError, s\<lparr>lastVideoTime := currentTime f\<rparr>)) \<and>
   (21 \<le> length landmarks \<longrightarrow>
      (\<exists>d. avgDist landmarks = Inr d \<and> signal (landmarks # hs) = Inr (classify d)) \<and>
      fst (handleResult (landmarks # hs) now s) = Inr ())"
proof -
  have short: "length landmarks < 21 \<longrightarrow>
      avgDist landmarks = Inl TypeError \<and>
      signal (landmarks # hs) = Inl TypeError \<and>
      handleResult (landmarks # hs) now s = (Inl TypeError, s)"
    by (simp add: avgDist_short signal_def handleResult_short)
  have loop: "length landmarks < 21 \<and> ready f \<and> currentTime f \<noteq> lastVideoTime s \<and>
      detected f = landmarks # hs \<longrightarrow>
      run (f # fs) s = (Inl TypeError, s\<lparr>lastVideoTime := currentTime f\<rparr>)"
    by (simp add: predictWebcam_fresh handleResult_short)
  have long: "21 \<le> length landmarks \<longrightarrow>
      (\<exists>d. avgDist landmarks = Inr d \<and> signal (landmarks # hs) = Inr (classify d)) \<and>
      fst (handleResult (landmarks # hs) now s) = Inr ()"
  proof
    assume "21 \<le> length landmarks"
    then obtain d where d: "avgDist landmarks = Inr d"
      using avgDist_long by blast
    have "fst (handleResult (landmarks # hs) now s) = Inr ()"
      by (simp add: handleResult_def d)
    then show "(\<exists>d. avgDist landmarks = Inr d \<and> signal (landmarks # hs) = Inr (classify d)) \<and>
      fst (handleResult (landmarks # hs) now s) = Inr ()"
      using d by (simp add: signal_def)
  qed
  from short loop long show ?thesis by blast
qed

text \<open>
  A hand of 20 landmarks ends the loop with the state untouched but for \<open>lastVideoTime\<close>;
  a hand of 21 landmarks is handled.
\<close>

theorem short_landmarks_witness:
  "run [shortFrame 1 1000, handFrame 2 (1 / 5) 1100] initialState =
     (Inl TypeError, initialState\<lparr>lastVideoTime := 1\<rparr>) \<and>
   fst (handleResult [flatHand (1 / 5)] 1000 initialState) = Inr ()"
proof -
  have a: "run [shortFrame 1 1000, handFrame 2 (1 / 5) 1100] initialState =
     (Inl TypeError, initialState\<lparr>lastVideoTime := 1\<rparr>)"
    using short_landmarks [where landmarks = "replicate 20 (Landmark 0 0 0)" and hs = "[]"
        and f = "shortFrame 1 1000" and s = initialState
        and fs = "[handFrame 2 (1 / 5) 1100]"]
    by (simp add: shortFrame_def initialState_def del: run.simps)
  have b: "fst (handleResult [flatHand (1 / 5)] 1000 initialState) = Inr ()"
    using short_landmarks [where landmarks = "flatHand (1 / 5)" and hs = "[]"
        and f = "shortFrame 1 1000" and s = initialState and fs = "[]" and now = 1000]
    by (simp add: flatHand_def)
  from a b show ?thesis by simp
qed

text \<open>
  A hand of 20 landmarks is not \<open>UNKNOWN\<close>: the call raises, and the closed fist of the
  next frame is never seen, whereas after a frame without a hand it gives \<open>TREE_SHAPE\<close>.
\<close>

theorem short_landmarks_counterexample:
  "length (replicate 20 (Landmark 0 0 0)) < 21 \<and>
   signal (detected (shortFrame 1 1000)) \<noteq> Inr UNKNOWN \<and>
   fst (predictWebcam (shortFrame 1 1000) initialState) = Inl TypeError \<and>
   appState (snd (run [shortFrame 1 1000, handFrame 2 (1 / 5) 1100] initialState)) = SCATTERED \<and>
   appState (snd (run [noHandFrame 1 1000, handFrame 2 (1 / 5) 1100] initialState)) = TREE_SHAPE"
proof -
  have e: "avgDist (replicate 20 (Landmark 0 0 0)) = Inl TypeError"
    by (simp add: avgDist_short)
  have a: "signal (detected (shortFrame 1 1000)) = Inl TypeError"
    by (simp add: shortFrame_def signal_def e)
  have b: "predictWebcam (shortFrame 1 1000) initialState =
      (Inl TypeError, initialState\<lparr>lastVideoTime := 1\<rparr>)"
    by (simp add: shortFrame_def initialState_def predictWebcam_def handleResult_def e)
  have c: "appState (snd (run [noHandFrame 1 1000, handFrame 2 (1 / 5) 1100] initialState))
      = TREE_SHAPE"
    by (simp add: initialState_def predictWebcam_fresh frame_eval signal_eval signal_nil
        handleResult_CLOSED handleResult_UNKNOWN)
  have d: "appState (snd (run [shortFrame 1 1000, handFrame 2 (1 / 5) 1100] initialState))
      = SCATTERED"
    by (simp add: b) (simp add: initialState_def)
  from a b c d show ?thesis
    by simp
qed

section \<open>The particle engine\<close>

lemma sqrt_scaled_squares:
  fixes a b c k :: real
  shows "sqrt (k * a * (k * a) + k * b * (k * b) + k * c * (k * c)) =
         \<bar>k\<bar> * sqrt (a * a + b * b + c * c)"
proof -
  have "k * a * (k * a) + k * b * (k * b) + k * c * (k * c) = k\<^sup>2 * (a * a + b * b + c * c)"
    by (simp add: power2_eq_square algebra_simps)
  then show ?thesis
    by (simp add: real_sqrt_mult)
qed

lemma distanceTo_lerp_target:
  "distanceTo (lerp a b t) b = \<bar>1 - t\<bar> * distanceTo a b"
proof -
  have "distanceTo (lerp a b t) b =
      sqrt ((1 - t) * (vx a - vx b) * ((1 - t) * (vx a - vx b)) +
            (1 - t) * (vy a - vy b) * ((1 - t) * (vy a - vy b)) +
            (1 - t) * (vz a - vz b) * ((1 - t) * (vz a - vz b)))"
    by (simp add: distanceTo_def lerp_def Let_def algebra_simps)
  also have "\<dots> = \<bar>1 - t\<bar> * distanceTo a b"
    unfolding sqrt_scaled_squares by (simp add: distanceTo_def Let_def)
  finally show ?thesis .
qed

lemma distanceTo_lerp_source:
  "distanceTo (lerp a b t) a = \<bar>t\<bar> * distanceTo a b"
proof -
  have "distanceTo (lerp a b t) a =
      sqrt (- t * (vx a - vx b) * (- t * (vx a - vx b)) +
            - t * (vy a - vy b) * (- t * (vy a - vy b)) +
            - t * (vz a - vz b) * (- t * (vz a - vz b)))"
    by (simp add: distanceTo_def lerp_def Let_def algebra_simps)
  also have "\<dots> = \<bar>- t\<bar> * distanceTo a b"
    unfolding sqrt_scaled_squares by (simp add: distanceTo_def Let_def)
  finally show ?thesis by simp
qed

lemma distanceTo_nonneg: "0 \<le> distanceTo a b"
  by (simp add: distanceTo_def Let_def)

lemma distanceTo_zero_iff: "distanceTo a b = 0 \<longleftrightarrow> a = b"
proof -
  have "distanceTo a b = 0 \<longleftrightarrow>
      (vx a - vx b) * (vx a - vx b) + (vy a - vy b) * (vy a - vy b) +
      (vz a - vz b) * (vz a - vz b) = 0"
    by (simp add: distanceTo_def Let_def)
  also have "\<dots> \<longleftrightarrow> vx a - vx b = 0 \<and> vy a - vy b = 0 \<and> vz a - vz b = 0"
    by (simp add: add_nonneg_eq_0_iff)
  also have "\<dots> \<longleftrightarrow> a = b"
    by (cases a; cases b) simp
  finally show ?thesis .
qed

lemma distanceTo_x_axis: "distanceTo (Vector3 a 0 0) (Vector3 b 0 0) = \<bar>a - b\<bar>"
  by (simp add: distanceTo_def)

lemma updateParticle_currentPosition:
  "fst (updateParticle st hit mouse delta time p) =
     p\<lparr>currentPosition := lerp (currentPosition p) (target st p) (delta * lerpSpeed st)\<rparr>"
  by (simp add: updateParticle_def Let_def)

lemma target_updateParticle:
  "target st (fst (updateParticle st hit mouse delta time p)) = target st p"
  by (simp add: updateParticle_currentPosition target_def)

lemma lerpSpeed_pos: "0 < lerpSpeed st"
  by (simp add: lerpSpeed_def)

lemma frames_target: "target st (frames st delta ins p) = target st p"
  by (induction ins arbitrary: p) (auto simp add: target_updateParticle)

lemma frames_distance:
  "distanceTo (currentPosition (frames st delta ins p)) (target st p) =
     \<bar>1 - delta * lerpSpeed st\<bar> ^ length ins * distanceTo (currentPosition p) (target st p)"
proof (induction ins arbitrary: p)
  case Nil
  then show ?case by simp
next
  case (Cons inp ins)
  obtain hit mouse time where inp: "inp = (hit, mouse, time)"
    by (cases inp)
  let ?q = "fst (updateParticle st hit mouse delta time p)"
  have "distanceTo (currentPosition (frames st delta ins ?q)) (target st ?q) =
      \<bar>1 - delta * lerpSpeed st\<bar> ^ length ins * distanceTo (currentPosition ?q) (target st ?q)"
    by (rule Cons.IH)
  moreover have "distanceTo (currentPosition ?q) (target st p) =
      \<bar>1 - delta * lerpSpeed st\<bar> * distanceTo (currentPosition p) (target st p)"
    by (simp add: updateParticle_currentPosition distanceTo_lerp_target)
  ultimately show ?case
    by (simp add: inp target_updateParticle)
qed

lemma testParticle_eval:
  "currentPosition testParticle = Vector3 0 0 0"
  "target TREE_SHAPE testParticle = Vector3 1 0 0"
  by (simp_all add: testParticle_def target_def)

lemma useFrame_particles:
  "particles (fst (useFrame mesh st hit delta time sc)) =
     (if mesh
      then map (\<lambda>p. p\<lparr>currentPosition :=
                  lerp (currentPosition p) (target st p) (delta * lerpSpeed st)\<rparr>) (particles sc)
      else particles sc)"
  by (simp add: useFrame_def Let_def updateParticle_currentPosition comp_def)

lemma repulse_inactive:
  "\<not> active \<or> hit = None \<Longrightarrow> repulse active hit mouse pos = pos"
  by (auto simp add: repulse_def)

lemma repulse_outside:
  "distanceTo pos mouse \<le> 1 / 100 \<or> 8 \<le> distanceTo pos mouse \<Longrightarrow>
   repulse active hit mouse pos = pos"
  by (auto simp add: repulse_def distanceTo_def Let_def)

lemma repulse_inside:
  assumes "active" and "hit \<noteq> None" and "1 / 100 < distanceTo pos mouse"
    and "distanceTo pos mouse < 8"
  shows "repulse active hit mouse pos =
     Vector3
       (vx pos + (vx pos - vx mouse) / distanceTo pos mouse * (5 * ((8 - distanceTo pos mouse) / 8)))
       (vy pos + (vy pos - vy mouse) / distanceTo pos mouse * (5 * ((8 - distanceTo pos mouse) / 8)))
       (vz pos + (vz pos - vz mouse) / distanceTo pos mouse * (5 * ((8 - distanceTo pos mouse) / 8)))"
  using assms by (simp add: repulse_def distanceTo_def Let_def)

lemma push_magnitude:
  assumes "0 < distanceTo pos mouse" and "0 \<le> k"
  shows "distanceTo
     (Vector3 (vx pos + (vx pos - vx mouse) / distanceTo pos mouse * k)
              (vy pos + (vy pos - vy mouse) / distanceTo pos mouse * k)
              (vz pos + (vz pos - vz mouse) / distanceTo pos mouse * k)) pos = k"
proof -
  let ?d = "distanceTo pos mouse"
  let ?c = "k / ?d"
  have "distanceTo
     (Vector3 (vx pos + (vx pos - vx mouse) / ?d * k)
              (vy pos + (vy pos - vy mouse) / ?d * k)
              (vz pos + (vz pos - vz mouse) / ?d * k)) pos =
     sqrt (?c * (vx pos - vx mouse) * (?c * (vx pos - vx mouse)) +
           ?c * (vy pos - vy mouse) * (?c * (vy pos - vy mouse)) +
           ?c * (vz pos - vz mouse) * (?c * (vz pos - vz mouse)))"
    unfolding distanceTo_def [of "Vector3 _ _ _" pos] Let_def
    by (simp add: algebra_simps)
  also have "\<dots> = \<bar>?c\<bar> * ?d"
    unfolding sqrt_scaled_squares by (simp add: distanceTo_def Let_def)
  also have "\<dots> = k"
    using assms by simp
  finally show ?thesis .
qed

lemma mkParticle_ptype:
  "ptype (mkParticle cfg rnd i) = (if rnd (12 * i) > 85 / 100 then ornament else needle)"
  by (simp add: mkParticle_def Let_def)

lemma mkParticle_scale:
  "scale (mkParticle cfg rnd i) =
     (if rnd (12 * i) > 85 / 100
      then rnd (12 * i + 8) * (15 / 100) + 1 / 10
      else rnd (12 * i + 8) * (8 / 100) + 2 / 100)"
  by (simp add: mkParticle_def Let_def)

lemma mkParticle_scale_range:
  assumes "\<forall>k. 0 \<le> rnd k \<and> rnd k < 1"
  shows "(ptype (mkParticle cfg rnd i) = ornament \<longrightarrow>
            1 / 10 \<le> scale (mkParticle cfg rnd i) \<and> scale (mkParticle cfg rnd i) < 25 / 100) \<and>
         (ptype (mkParticle cfg rnd i) = needle \<longrightarrow>
            2 / 100 \<le> scale (mkParticle cfg rnd i) \<and> scale (mkParticle cfg rnd i) < 10 / 100)"
proof -
  have "0 \<le> rnd (12 * i + 8)" "rnd (12 * i + 8) < 1"
    using assms by simp_all
  then show ?thesis
    by (simp add: mkParticle_ptype mkParticle_scale)
qed

text \<open>
  Claim C1 (interpolation step, lines 164-167). As stated the claim fails: \<open>lerp\<close> does not
  clamp its factor \<open>delta * lerpSpeed\<close>, and with \<open>delta = 1\<close> and speed 2.5 the particle
  of the claim's own example lands on \<open>(2.5, 0, 0)\<close>, at distance 1.5 from its target
  instead of 1. What holds: every update multiplies the distance to the target by
  \<open>\<bar>1 - delta * lerpSpeed\<bar>\<close>; hence for a positive \<open>delta\<close> with
  \<open>delta * lerpSpeed < 2\<close> the distance of a particle that is not on its target strictly
  decreases, and over successive frames tends to 0; and for \<open>delta * lerpSpeed \<le> 1\<close> the
  new position lies on the segment from the old position to the target (no overshoot).
\<close>

theorem lerp_convergence:
  "distanceTo (currentPosition (fst (updateParticle st hit mouse delta time p))) (target st p) =
     \<bar>1 - delta * lerpSpeed st\<bar> * distanceTo (currentPosition p) (target st p) \<and>
   (0 < delta \<and> delta * lerpSpeed st < 2 \<and> currentPosition p \<noteq> target st p \<longrightarrow>
      distanceTo (currentPosition (fst (updateParticle st hit mouse delta time p))) (target st p)
        < distanceTo (currentPosition p) (target st p)) \<and>
   (0 < delta \<and> delta * lerpSpeed st \<le> 1 \<longrightarrow>
      distanceTo (currentPosition (fst (updateParticle st hit mouse delta time p)))
          (currentPosition p) +
      distanceTo (currentPosition (fst (updateParticle st hit mouse delta time p))) (target st p)
        = distanceTo (currentPosition p) (target st p)) \<and>
   distanceTo (currentPosition (frames st delta ins p)) (target st p) =
     \<bar>1 - delta * lerpSpeed st\<bar> ^ length ins * distanceTo (currentPosition p) (target st p) \<and>
   (0 < delta \<and> delta * lerpSpeed st < 2 \<longrightarrow>
      (\<lambda>n. distanceTo (currentPosition (frames st delta (replicate n (hit, mouse, time)) p))
         (target st p)) \<longlonglongrightarrow> 0)"
proof -
  let ?a = "delta * lerpSpeed st"
  let ?d = "distanceTo (currentPosition p) (target st p)"
  let ?new = "currentPosition (fst (updateParticle st hit mouse delta time p))"
  have new: "?new = lerp (currentPosition p) (target st p) ?a"
    by (simp add: updateParticle_currentPosition)
  have scale: "distanceTo ?new (target st p) = \<bar>1 - ?a\<bar> * ?d"
    by (simp only: new distanceTo_lerp_target)
  have pos: "0 < delta \<longrightarrow> 0 < ?a"
    using lerpSpeed_pos [of st] by simp
  have decrease: "0 < delta \<and> ?a < 2 \<and> currentPosition p \<noteq> target st p \<longrightarrow>
      distanceTo ?new (target st p) < ?d"
  proof
    assume h: "0 < delta \<and> ?a < 2 \<and> currentPosition p \<noteq> target st p"
    then have "0 < ?d"
      using distanceTo_nonneg [of "currentPosition p" "target st p"]
        distanceTo_zero_iff [of "currentPosition p" "target st p"] by linarith
    moreover have "\<bar>1 - ?a\<bar> < 1"
      using h pos by linarith
    ultimately have "\<bar>1 - ?a\<bar> * ?d < 1 * ?d"
      by (intro mult_strict_right_mono)
    then show "distanceTo ?new (target st p) < ?d"
      by (simp add: scale)
  qed
  have segment: "0 < delta \<and> ?a \<le> 1 \<longrightarrow>
      distanceTo ?new (currentPosition p) + distanceTo ?new (target st p) = ?d"
  proof
    assume h: "0 < delta \<and> ?a \<le> 1"
    then have "\<bar>?a\<bar> = ?a" "\<bar>1 - ?a\<bar> = 1 - ?a"
      using pos by linarith+
    then have "distanceTo ?new (currentPosition p) + distanceTo ?new (target st p) =
        ?a * ?d + (1 - ?a) * ?d"
      by (simp only: new distanceTo_lerp_target distanceTo_lerp_source)
    then show "distanceTo ?new (currentPosition p) + distanceTo ?new (target st p) = ?d"
      by (simp add: algebra_simps)
  qed
  have limit: "0 < delta \<and> ?a < 2 \<longrightarrow>
      (\<lambda>n. distanceTo (currentPosition (frames st delta (replicate n (hit, mouse, time)) p))
         (target st p)) \<longlonglongrightarrow> 0"
  proof
    assume h: "0 < delta \<and> ?a < 2"
    then have "\<bar>1 - ?a\<bar> < 1"
      using pos by linarith
    then have "(\<lambda>n. \<bar>1 - ?a\<bar> ^ n) \<longlonglongrightarrow> 0"
      by (intro LIMSEQ_realpow_zero) simp_all
    then have "(\<lambda>n. \<bar>1 - ?a\<bar> ^ n * ?d) \<longlonglongrightarrow> 0 * ?d"
      by (intro tendsto_mult tendsto_const)
    then show "(\<lambda>n. distanceTo (currentPosition (frames st delta (replicate n (hit, mouse, time)) p))
         (target st p)) \<longlonglongrightarrow> 0"
      by (simp add: frames_distance)
  qed
  from scale decrease segment frames_distance [of st delta ins p] limit show ?thesis
    by blast
qed

text \<open>The amended statement at \<open>delta = 1/10\<close> for the particle of the example.\<close>

theorem lerp_convergence_witness:
  "distanceTo (currentPosition (fst (updateParticle TREE_SHAPE None (Vector3 0 0 0) (1 / 10) 0
      testParticle))) (target TREE_SHAPE testParticle)
     < distanceTo (currentPosition testParticle) (target TREE_SHAPE testParticle) \<and>
   distanceTo (currentPosition (fst (updateParticle TREE_SHAPE None (Vector3 0 0 0) (1 / 10) 0
      testParticle))) (currentPosition testParticle) +
   distanceTo (currentPosition (fst (updateParticle TREE_SHAPE None (Vector3 0 0 0) (1 / 10) 0
      testParticle))) (target TREE_SHAPE testParticle)
     = distanceTo (currentPosition testParticle) (target TREE_SHAPE testParticle) \<and>
   (\<lambda>n. distanceTo (currentPosition (frames TREE_SHAPE (1 / 10)
      (replicate n (None, Vector3 0 0 0, 0)) testParticle)) (target TREE_SHAPE testParticle))
     \<longlonglongrightarrow> 0"
  using lerp_convergence [of TREE_SHAPE None "Vector3 0 0 0" "1 / 10" 0 testParticle "[]"]
  by (simp add: testParticle_eval lerpSpeed_def)

text \<open>
  The example of the claim: from \<open>(0,0,0)\<close> towards \<open>(1,0,0)\<close> with \<open>delta = 1\<close> in state
  \<open>TREE_SHAPE\<close> (speed 2.5), one update moves the particle to \<open>(2.5,0,0)\<close>: past the
  target, and farther from it than before.
\<close>

theorem lerp_convergence_counterexample:
  "lerpSpeed TREE_SHAPE = 25 / 10 \<and>
   currentPosition testParticle = Vector3 0 0 0 \<and>
   target TREE_SHAPE testParticle = Vector3 1 0 0 \<and>
   currentPosition (fst (updateParticle TREE_SHAPE None (Vector3 0 0 0) 1 0 testParticle))
     = Vector3 (5 / 2) 0 0 \<and>
   distanceTo (currentPosition testParticle) (target TREE_SHAPE testParticle) = 1 \<and>
   distanceTo (currentPosition (fst (updateParticle TREE_SHAPE None (Vector3 0 0 0) 1 0
      testParticle))) (target TREE_SHAPE testParticle) = 3 / 2"
  by (simp add: updateParticle_currentPosition testParticle_eval lerpSpeed_def lerp_def
      distanceTo_x_axis)

text \<open>
  Claim C7 (mouse repulsion, lines 172-193). As stated the claim fails at the distance
  0.01 itself, where the source (\<open>len > 0.01\<close>) skips the push. What holds: the position
  written to the instance is the repulsed copy of \<open>currentPosition\<close> plus the hover
  offset on \<open>y\<close>; the copy is not pushed unless the state is \<open>SCATTERED\<close> or \<open>TEXT_SHAPE\<close>
  and \<open>hit\<close> is present; when both hold and the distance \<open>d\<close> to the pointer satisfies
  \<open>0.01 < d < 8\<close>, the copy is moved along the normalized separation vector by exactly
  \<open>5 * (8 - d) / 8\<close>; and for \<open>d \<le> 0.01\<close> or \<open>d \<ge> 8\<close> it is not moved.
\<close>

theorem repulsion_push:
  "position (snd (updateParticle st hit mouse delta time p)) =
     (let q = repulse (st = SCATTERED \<or> st = TEXT_SHAPE) hit mouse
                (currentPosition (fst (updateParticle st hit mouse delta time p)))
      in Vector3 (vx q) (vy q + hoverY st time p) (vz q)) \<and>
   (\<not> (st = SCATTERED \<or> st = TEXT_SHAPE) \<or> hit = None \<longrightarrow>
      repulse (st = SCATTERED \<or> st = TEXT_SHAPE) hit mouse pos = pos) \<and>
   ((st = SCATTERED \<or> st = TEXT_SHAPE) \<and> hit \<noteq> None \<and> d = distanceTo pos mouse \<and>
    1 / 100 < d \<and> d < 8 \<longrightarrow>
      repulse (st = SCATTERED \<or> st = TEXT_SHAPE) hit mouse pos =
        Vector3 (vx pos + (vx pos - vx mouse) / d * (5 * ((8 - d) / 8)))
                (vy pos + (vy pos - vy mouse) / d * (5 * ((8 - d) / 8)))
                (vz pos + (vz pos - vz mouse) / d * (5 * ((8 - d) / 8))) \<and>
      distanceTo (repulse (st = SCATTERED \<or> st = TEXT_SHAPE) hit mouse pos) pos
        = 5 * ((8 - d) / 8)) \<and>
   (distanceTo pos mouse \<le> 1 / 100 \<or> 8 \<le> distanceTo pos mouse \<longrightarrow>
      repulse (st = SCATTERED \<or> st = TEXT_SHAPE) hit mouse pos = pos)"
proof -
  let ?active = "st = SCATTERED \<or> st = TEXT_SHAPE"
  have out: "position (snd (updateParticle st hit mouse delta time p)) =
     (let q = repulse ?active hit mouse
                (currentPosition (fst (updateParticle st hit mouse delta time p)))
      in Vector3 (vx q) (vy q + hoverY st time p) (vz q))"
    by (simp add: updateParticle_def Let_def hoverY_def)
  have inactive: "\<not> ?active \<or> hit = None \<longrightarrow> repulse ?active hit mouse pos = pos"
    by (intro impI) (rule repulse_inactive)
  have inside: "?active \<and> hit \<noteq> None \<and> d = distanceTo pos mouse \<and> 1 / 100 < d \<and> d < 8 \<longrightarrow>
      repulse ?active hit mouse pos =
        Vector3 (vx pos + (vx pos - vx mouse) / d * (5 * ((8 - d) / 8)))
                (vy pos + (vy pos - vy mouse) / d * (5 * ((8 - d) / 8)))
                (vz pos + (vz pos - vz mouse) / d * (5 * ((8 - d) / 8))) \<and>
      distanceTo (repulse ?active hit mouse pos) pos = 5 * ((8 - d) / 8)"
  proof (intro impI)
    assume h: "?active \<and> hit \<noteq> None \<and> d = distanceTo pos mouse \<and> 1 / 100 < d \<and> d < 8"
    from h have act: "?active" and hit: "hit \<noteq> None" and lo: "1 / 100 < d" and hi: "d < 8"
      by simp_all
    from h have d: "distanceTo pos mouse = d"
      by simp
    have r: "repulse ?active hit mouse pos =
        Vector3 (vx pos + (vx pos - vx mouse) / d * (5 * ((8 - d) / 8)))
                (vy pos + (vy pos - vy mouse) / d * (5 * ((8 - d) / 8)))
                (vz pos + (vz pos - vz mouse) / d * (5 * ((8 - d) / 8)))"
      using repulse_inside [of ?active hit pos mouse, unfolded d, OF act hit lo hi] .
    have k: "0 \<le> 5 * ((8 - d) / 8)"
      using hi by simp
    have dpos: "0 < d"
      using lo by simp
    have m: "distanceTo
        (Vector3 (vx pos + (vx pos - vx mouse) / d * (5 * ((8 - d) / 8)))
                 (vy pos + (vy pos - vy mouse) / d * (5 * ((8 - d) / 8)))
                 (vz pos + (vz pos - vz mouse) / d * (5 * ((8 - d) / 8))))
        pos = 5 * ((8 - d) / 8)"
      using push_magnitude [of pos mouse "5 * ((8 - d) / 8)", unfolded d, OF dpos k] .
    show "repulse ?active hit mouse pos =
        Vector3 (vx pos + (vx pos - vx mouse) / d * (5 * ((8 - d) / 8)))
                (vy pos + (vy pos - vy mouse) / d * (5 * ((8 - d) / 8)))
                (vz pos + (vz pos - vz mouse) / d * (5 * ((8 - d) / 8))) \<and>
      distanceTo (repulse ?active hit mouse pos) pos = 5 * ((8 - d) / 8)"
      unfolding r using m by (intro conjI refl)
  qed
  have outside: "distanceTo pos mouse \<le> 1 / 100 \<or> 8 \<le> distanceTo pos mouse \<longrightarrow>
      repulse ?active hit mouse pos = pos"
    by (intro impI) (rule repulse_outside)
  show ?thesis
    by (rule conjI [OF out conjI [OF inactive conjI [OF inside outside]]])
qed

text \<open>
  Pointer at the origin: at distance 4 the push is 2.5 along \<open>x\<close>, at distance 8 there is
  none; none either in state \<open>TREE_SHAPE\<close> or without \<open>hit\<close>.
\<close>

theorem repulsion_push_witness:
  "repulse True (Some (Vector3 0 0 0)) (Vector3 0 0 0) (Vector3 4 0 0) = Vector3 (13 / 2) 0 0 \<and>
   distanceTo (repulse True (Some (Vector3 0 0 0)) (Vector3 0 0 0) (Vector3 4 0 0))
     (Vector3 4 0 0) = 5 / 2 \<and>
   repulse True (Some (Vector3 0 0 0)) (Vector3 0 0 0) (Vector3 8 0 0) = Vector3 8 0 0 \<and>
   repulse False (Some (Vector3 0 0 0)) (Vector3 0 0 0) (Vector3 4 0 0) = Vector3 4 0 0 \<and>
   repulse True None (Vector3 0 0 0) (Vector3 4 0 0) = Vector3 4 0 0"
proof -
  have d4: "distanceTo (Vector3 4 0 0) (Vector3 0 0 0) = 4"
    and d8: "distanceTo (Vector3 8 0 0) (Vector3 0 0 0) = 8"
    by (simp_all add: distanceTo_x_axis)
  have a: "repulse True (Some (Vector3 0 0 0)) (Vector3 0 0 0) (Vector3 4 0 0)
        = Vector3 (13 / 2) 0 0 \<and>
      distanceTo (repulse True (Some (Vector3 0 0 0)) (Vector3 0 0 0) (Vector3 4 0 0))
        (Vector3 4 0 0) = 5 / 2"
    using repulsion_push [where st = SCATTERED and hit = "Some (Vector3 0 0 0)"
        and mouse = "Vector3 0 0 0" and pos = "Vector3 4 0 0" and d = 4
        and delta = 0 and time = 0 and p = testParticle]
    by (simp add: d4 distanceTo_x_axis)
  have b: "repulse True (Some (Vector3 0 0 0)) (Vector3 0 0 0) (Vector3 8 0 0) = Vector3 8 0 0"
    using repulsion_push [where st = SCATTERED and hit = "Some (Vector3 0 0 0)"
        and mouse = "Vector3 0 0 0" and pos = "Vector3 8 0 0" and d = 8
        and delta = 0 and time = 0 and p = testParticle]
    by (simp add: d8)
  have c: "repulse False (Some (Vector3 0 0 0)) (Vector3 0 0 0) (Vector3 4 0 0) = Vector3 4 0 0"
    using repulsion_push [where st = TREE_SHAPE and hit = "Some (Vector3 0 0 0)"
        and mouse = "Vector3 0 0 0" and pos = "Vector3 4 0 0" and d = 4
        and delta = 0 and time = 0 and p = testParticle]
    by simp
  have e: "repulse True None (Vector3 0 0 0) (Vector3 4 0 0) = Vector3 4 0 0"
    using repulsion_push [where st = SCATTERED and hit = None
        and mouse = "Vector3 0 0 0" and pos = "Vector3 4 0 0" and d = 4
        and delta = 0 and time = 0 and p = testParticle]
    by simp
  show ?thesis
    by (rule conjI [OF conjunct1 [OF a] conjI [OF conjunct2 [OF a] conjI [OF b conjI [OF c e]]]])
qed

text \<open>
  A particle resting at \<open>(0.01, 0, 0)\<close> with the pointer at the origin, in state
  \<open>SCATTERED\<close>: the distance is 0.01, which is not below 0.01 and is below 8, and the
  position written is \<open>(0.01, 0, 0)\<close>, not pushed at all.
\<close>

theorem repulsion_push_counterexample:
  "currentPosition (fst (updateParticle SCATTERED (Some (Vector3 0 0 0)) (Vector3 0 0 0)
      (1 / 60) 0 nearParticle)) = Vector3 (1 / 100) 0 0 \<and>
   distanceTo (Vector3 (1 / 100) 0 0) (Vector3 0 0 0) = 1 / 100 \<and>
   \<not> distanceTo (Vector3 (1 / 100) 0 0) (Vector3 0 0 0) < 1 / 100 \<and>
   distanceTo (Vector3 (1 / 100) 0 0) (Vector3 0 0 0) < 8 \<and>
   position (snd (updateParticle SCATTERED (Some (Vector3 0 0 0)) (Vector3 0 0 0)
      (1 / 60) 0 nearParticle)) = Vector3 (1 / 100) 0 0"
proof -
  have cur: "currentPosition (fst (updateParticle SCATTERED (Some (Vector3 0 0 0))
      (Vector3 0 0 0) (1 / 60) 0 nearParticle)) = Vector3 (1 / 100) 0 0"
    by (simp add: updateParticle_currentPosition nearParticle_def target_def lerp_def)
  have d: "distanceTo (Vector3 (1 / 100) 0 0) (Vector3 0 0 0) = 1 / 100"
    by (simp add: distanceTo_x_axis)
  have r: "repulse True (Some (Vector3 0 0 0)) (Vector3 0 0 0) (Vector3 (1 / 100) 0 0)
      = Vector3 (1 / 100) 0 0"
    by (rule repulse_outside) (simp add: d)
  have h: "hoverY SCATTERED 0 nearParticle = 0"
    by (simp add: hoverY_def nearParticle_def)
  have out: "position (snd (updateParticle SCATTERED (Some (Vector3 0 0 0)) (Vector3 0 0 0)
      (1 / 60) 0 nearParticle)) =
      (let q = repulse True (Some (Vector3 0 0 0)) (Vector3 0 0 0)
                (currentPosition (fst (updateParticle SCATTERED (Some (Vector3 0 0 0))
                   (Vector3 0 0 0) (1 / 60) 0 nearParticle)))
       in Vector3 (vx q) (vy q + hoverY SCATTERED 0 nearParticle) (vz q))"
    by (simp add: updateParticle_def Let_def hoverY_def)
  have "position (snd (updateParticle SCATTERED (Some (Vector3 0 0 0)) (Vector3 0 0 0)
      (1 / 60) 0 nearParticle)) = Vector3 (1 / 100) 0 0"
    unfolding out cur r h by simp
  with cur d show ?thesis by simp
qed

text \<open>
  Claim C8 (frame effect). One call of the \<open>useFrame\<close> callback keeps the number of
  particles and changes no field of a particle but \<open>currentPosition\<close>, which becomes the
  interpolation result (or stays, when the mesh is not mounted); the particles after the
  call are the same whatever \<open>hit\<close> was, so the repulsion is never stored.
\<close>

theorem frame_effect:
  assumes "i < length (particles sc)"
  shows "length (particles (fst (useFrame mesh st hit delta time sc))) = length (particles sc) \<and>
    particles (fst (useFrame mesh st hit delta time sc)) ! i =
      (particles sc ! i)\<lparr>currentPosition :=
         (if mesh
          then lerp (currentPosition (particles sc ! i)) (target st (particles sc ! i))
                 (delta * lerpSpeed st)
          else currentPosition (particles sc ! i))\<rparr> \<and>
    pid (particles (fst (useFrame mesh st hit delta time sc)) ! i) = pid (particles sc ! i) \<and>
    scatterPosition (particles (fst (useFrame mesh st hit delta time sc)) ! i)
      = scatterPosition (particles sc ! i) \<and>
    treePosition (particles (fst (useFrame mesh st hit delta time sc)) ! i)
      = treePosition (particles sc ! i) \<and>
    textPosition (particles (fst (useFrame mesh st hit delta time sc)) ! i)
      = textPosition (particles sc ! i) \<and>
    color (particles (fst (useFrame mesh st hit delta time sc)) ! i) = color (particles sc ! i) \<and>
    scale (particles (fst (useFrame mesh st hit delta time sc)) ! i) = scale (particles sc ! i) \<and>
    rotationSpeed (particles (fst (useFrame mesh st hit delta time sc)) ! i)
      = rotationSpeed (particles sc ! i) \<and>
    ptype (particles (fst (useFrame mesh st hit delta time sc)) ! i) = ptype (particles sc ! i) \<and>
    particles (fst (useFrame mesh st hit delta time sc)) =
      particles (fst (useFrame mesh st None delta time sc))"
  using assms by (simp add: useFrame_particles)

text \<open>
  A particle at its target with the pointer one unit away: its instance is pushed,
  the particle is not.
\<close>

theorem frame_effect_witness:
  "particles (fst (useFrame True SCATTERED (Some (Vector3 1 0 0)) (1 / 10) 0 testScene)) ! 0 =
     testParticle\<lparr>currentPosition := Vector3 0 0 0\<rparr> \<and>
   particles (fst (useFrame True SCATTERED (Some (Vector3 1 0 0)) (1 / 10) 0 testScene)) =
     particles (fst (useFrame True SCATTERED None (1 / 10) 0 testScene)) \<and>
   scale (particles (fst (useFrame True SCATTERED (Some (Vector3 1 0 0)) (1 / 10) 0 testScene)) ! 0)
     = 1 / 10 \<and>
   vx (position (snd (useFrame True SCATTERED (Some (Vector3 1 0 0)) (1 / 10) 0 testScene) ! 0))
     \<noteq> 0"
proof -
  have len: "0 < length (particles testScene)"
    by (simp add: testScene_def)
  have p0: "particles testScene ! 0 = testParticle"
    by (simp add: testScene_def)
  have l: "\<And>t. lerp (currentPosition testParticle) (target SCATTERED testParticle) t
      = Vector3 0 0 0"
    by (simp add: testParticle_def target_def lerp_def)
  have sc: "scale testParticle = 1 / 10"
    by (simp add: testParticle_def)
  have a: "particles (fst (useFrame True SCATTERED (Some (Vector3 1 0 0)) (1 / 10) 0 testScene)) ! 0 =
     testParticle\<lparr>currentPosition := Vector3 0 0 0\<rparr> \<and>
   particles (fst (useFrame True SCATTERED (Some (Vector3 1 0 0)) (1 / 10) 0 testScene)) =
     particles (fst (useFrame True SCATTERED None (1 / 10) 0 testScene)) \<and>
   scale (particles (fst (useFrame True SCATTERED (Some (Vector3 1 0 0)) (1 / 10) 0 testScene)) ! 0)
     = 1 / 10"
    using frame_effect [OF len, of True SCATTERED "Some (Vector3 1 0 0)" "1 / 10" 0,
        unfolded p0 if_True l sc]
    by blast
  have b: "vx (position (snd (useFrame True SCATTERED (Some (Vector3 1 0 0)) (1 / 10) 0
      testScene) ! 0)) = - (35 / 8)"
    by (simp add: useFrame_def testScene_def updateParticle_def Let_def testParticle_def
        target_def lerp_def repulse_def distanceTo_def)
  from b have c: "vx (position (snd (useFrame True SCATTERED (Some (Vector3 1 0 0)) (1 / 10) 0
      testScene) ! 0)) \<noteq> 0"
    by simp
  from a c show ?thesis by blast
qed

text \<open>
  Claim C9 (target and speed). The target is \<open>treePosition\<close> in state \<open>TREE_SHAPE\<close>,
  \<open>textPosition\<close> in \<open>TEXT_SHAPE\<close> and \<open>scatterPosition\<close> otherwise; the speed is 2 in
  \<open>TEXT_SHAPE\<close> and 2.5 otherwise; and the update interpolates \<open>currentPosition\<close> towards
  that target by \<open>delta\<close> times that speed.
\<close>

theorem target_and_speed:
  "target TREE_SHAPE p = treePosition p \<and>
   target TEXT_SHAPE p = textPosition p \<and>
   target SCATTERED p = scatterPosition p \<and>
   lerpSpeed TEXT_SHAPE = 2 \<and> lerpSpeed TREE_SHAPE = 25 / 10 \<and> lerpSpeed SCATTERED = 25 / 10 \<and>
   currentPosition (fst (updateParticle TREE_SHAPE hit mouse delta time p)) =
     lerp (currentPosition p) (treePosition p) (delta * (25 / 10)) \<and>
   currentPosition (fst (updateParticle TEXT_SHAPE hit mouse delta time p)) =
     lerp (currentPosition p) (textPosition p) (delta * 2) \<and>
   currentPosition (fst (updateParticle SCATTERED hit mouse delta time p)) =
     lerp (currentPosition p) (scatterPosition p) (delta * (25 / 10))"
  by (simp add: updateParticle_currentPosition target_def lerpSpeed_def)

text \<open>
  Claim C10 (base scale). With \<open>Math.random()\<close> in \<open>[0, 1)\<close>, every particle of the initial
  array has its scale in \<open>[0.1, 0.25)\<close> if it is an ornament and in \<open>[0.02, 0.10)\<close> if it
  is a needle; hence every ornament is strictly larger than every needle.
\<close>

theorem scale_ranges:
  assumes "\<forall>k. 0 \<le> rnd k \<and> rnd k < 1" and "p \<in> set (initParticles cfg rnd)"
  shows "(ptype p = ornament \<longrightarrow> 1 / 10 \<le> scale p \<and> scale p < 25 / 100) \<and>
         (ptype p = needle \<longrightarrow> 2 / 100 \<le> scale p \<and> scale p < 10 / 100) \<and>
         (\<forall>q\<in>set (initParticles cfg rnd).
            ptype p = ornament \<and> ptype q = needle \<longrightarrow> scale q < scale p)"
proof -
  have range: "(ptype x = ornament \<longrightarrow> 1 / 10 \<le> scale x \<and> scale x < 25 / 100) \<and>
      (ptype x = needle \<longrightarrow> 2 / 100 \<le> scale x \<and> scale x < 10 / 100)"
    if "x \<in> set (initParticles cfg rnd)" for x
  proof -
    from that obtain i where "x = mkParticle cfg rnd i"
      by (auto simp add: initParticles_def)
    then show ?thesis
      using mkParticle_scale_range [OF assms(1), of cfg i] by simp
  qed
  have "\<forall>q\<in>set (initParticles cfg rnd).
      ptype p = ornament \<and> ptype q = needle \<longrightarrow> scale q < scale p"
  proof (intro ballI impI)
    fix q
    assume q: "q \<in> set (initParticles cfg rnd)" and t: "ptype p = ornament \<and> ptype q = needle"
    have "scale q < 10 / 100" using range [OF q] t by simp
    moreover have "1 / 10 \<le> scale p" using range [OF assms(2)] t by simp
    ultimately show "scale q < scale p" by simp
  qed
  with range [OF assms(2)] show ?thesis by blast
qed

text \<open>Two particles, the first an ornament and the second a needle.\<close>

theorem scale_ranges_witness:
  "ptype (mkParticle testConfig testRandom 0) = ornament \<and>
   ptype (mkParticle testConfig testRandom 1) = needle \<and>
   1 / 10 \<le> scale (mkParticle testConfig testRandom 0) \<and>
   scale (mkParticle testConfig testRandom 0) < 25 / 100 \<and>
   scale (mkParticle testConfig testRandom 1) < scale (mkParticle testConfig testRandom 0)"
proof -
  have rnd: "\<forall>k. 0 \<le> testRandom k \<and> testRandom k < 1"
    by (simp add: testRandom_def)
  have all: "initParticles testConfig testRandom =
      [mkParticle testConfig testRandom 0, mkParticle testConfig testRandom 1]"
    by (simp add: initParticles_def testConfig_def upt_rec)
  have mem: "mkParticle testConfig testRandom 0 \<in> set (initParticles testConfig testRandom)"
    by (simp add: all)
  have t0: "ptype (mkParticle testConfig testRandom 0) = ornament"
    and t1: "ptype (mkParticle testConfig testRandom 1) = needle"
    by (simp_all add: mkParticle_ptype testRandom_def)
  from scale_ranges [OF rnd mem] t0 t1 show ?thesis
    by (simp add: all)
qed

end
